theory Spec2Isabelle
  imports Main "HOL-Library.Sublist"
begin

section \<open>The screenshot route of the website monitor\<close>

text \<open>
  A shallow embedding of \<^verbatim>\<open>src/app/api/screenshot/route.ts\<close>: the site classifier
  \<^verbatim>\<open>needsSpecialHandling\<close>, the two certificate strategies \<^verbatim>\<open>getSSLCertificateInfo\<close> and
  \<^verbatim>\<open>checkSSLWithChecker\<close>, the prober \<^verbatim>\<open>checkWebsiteStatus\<close>, the capturer
  \<^verbatim>\<open>takeScreenshot\<close> and the handler \<^verbatim>\<open>POST\<close>.

  The route talks to the network, a TLS socket, a headless browser and the clock. These
  are parameters of the model: an environment \<open>env\<close> gives, for every external call, its
  outcome and the next state of an abstract world \<open>'w\<close>. The model threads the world
  through the calls in the order the source awaits them, and records every external call
  it makes in a trace, so that "this call is made" and "no call is made" are statements
  about the trace.
\<close>

subsection \<open>JavaScript strings and truthiness\<close>

text \<open>Strings are lists of characters; the model is exact for ASCII text.\<close>

definition startsWith :: "string \<Rightarrow> string \<Rightarrow> bool" where
  "startsWith s p = prefix p s"

definition includes_str :: "string \<Rightarrow> string \<Rightarrow> bool" where
  "includes_str s sub = sublist sub s"

definition toLowerChar :: "char \<Rightarrow> char" where
  "toLowerChar c =
     (case map_of (zip ''ABCDEFGHIJKLMNOPQRSTUVWXYZ'' ''abcdefghijklmnopqrstuvwxyz'') c of
        Some d \<Rightarrow> d
      | None \<Rightarrow> c)"

definition toLowerCase :: "string \<Rightarrow> string" where
  "toLowerCase s = map toLowerChar s"

text \<open>
  An optional string (\<^verbatim>\<open>string | undefined | null\<close>) is truthy when it is present and
  not empty; \<^verbatim>\<open>a || b\<close> is \<open>a\<close> when \<open>a\<close> is truthy and \<open>b\<close> otherwise.
\<close>

definition truthy :: "string option \<Rightarrow> bool" where
  "truthy v = (case v of None \<Rightarrow> False | Some s \<Rightarrow> s \<noteq> [])"

definition js_or :: "string option \<Rightarrow> string option \<Rightarrow> string option" where
  "js_or a b = (if truthy a then a else b)"

text \<open>Decimal text of an integer, as a template literal prints a whole number.\<close>

definition digit_char :: "int \<Rightarrow> char" where
  "digit_char d = ''0123456789'' ! nat d"

function decimal_digits :: "int \<Rightarrow> string" where
  "decimal_digits n =
     (if n < 10 then [digit_char n] else decimal_digits (n div 10) @ [digit_char (n mod 10)])"
  by pat_completeness auto
termination
  by (relation "measure nat") auto

declare decimal_digits.simps [simp del]

definition number_toString :: "int \<Rightarrow> string" where
  "number_toString i = (if i < 0 then ''-'' @ decimal_digits (- i) else decimal_digits i)"

subsection \<open>Data\<close>

datatype Status = Up | Down | Error

text \<open>
  The certificate record both strategies return; the prober's result extends it, and the
  final \<^verbatim>\<open>ScreenshotResult\<close> extends that. Every field the TypeScript types mark with
  \<^verbatim>\<open>?\<close> is an option.
\<close>

record SslInfo =
  ssl_valid :: bool
  ssl_renew_date :: "string option"
  ssl_issued_date :: "string option"
  ssl_expire_date :: "string option"
  ssl_expires :: "string option"
  ssl_days_remaining :: "int option"

record StatusCheck = SslInfo +
  status :: Status
  response_time :: "int option"
  error_message :: "string option"

record ScreenshotResult = StatusCheck +
  r_id :: int
  r_url :: string
  screenshot_path :: "string option"

text \<open>
  \<^verbatim>\<open>Website\<close> is imported from \<^verbatim>\<open>@/lib/supabase\<close>; the route reads its \<^verbatim>\<open>id\<close> and
  \<^verbatim>\<open>url\<close> only.
\<close>

record Website =
  w_id :: int
  w_url :: string

text \<open>A thrown \<^verbatim>\<open>Error\<close> object: its \<^verbatim>\<open>name\<close> and its \<^verbatim>\<open>message\<close>, which may be absent.\<close>

datatype js_error = JsError (err_name: string) (err_message: "string option")

subsection \<open>The environment\<close>

datatype fetch_outcome =
    Response (ok: bool)
  | FetchThrows js_error

text \<open>
  The peer certificate's \<^verbatim>\<open>valid_from\<close> and \<^verbatim>\<open>valid_to\<close>, as the milliseconds
  \<^verbatim>\<open>new Date(...)\<close> reads from them; \<open>None\<close> is a missing or empty field.
\<close>

datatype peer_cert = PeerCert (valid_from: "int option") (valid_to: "int option")

datatype tls_outcome =
    SecureConnect "peer_cert option"
  | SocketError
  | SocketTimeout

record checker_result =
  checker_valid :: bool
  checker_validFrom :: string
  checker_validTo :: string
  checker_daysRemaining :: int

datatype checker_outcome =
    CheckerResolves checker_result
  | CheckerRejects

text \<open>
  The try block of \<^verbatim>\<open>takeScreenshot\<close> up to the settle waits: \<^verbatim>\<open>chromium.launch\<close> may
  throw before \<^verbatim>\<open>browser\<close> is assigned, a later call may throw with the browser open, or
  the page is ready for the screenshot.
\<close>

datatype open_outcome =
    LaunchThrows js_error
  | PageThrows js_error
  | PageReady

datatype event =
    Fetch string
  | TlsConnect nat string
  | SslChecker string
  | BrowserLaunch
  | PageScreenshot string
  | BrowserClose
  | Sleep nat

record 'w env =
  date_now :: "'w \<Rightarrow> int \<times> 'w"
  fetch :: "string \<Rightarrow> 'w \<Rightarrow> fetch_outcome \<times> 'w"
  url_parse :: "string \<Rightarrow> (string \<times> nat option) option"
  tls_connect :: "nat \<Rightarrow> string \<Rightarrow> 'w \<Rightarrow> tls_outcome \<times> 'w"
  toISODate :: "int \<Rightarrow> string"
  sslChecker :: "string \<Rightarrow> 'w \<Rightarrow> checker_outcome \<times> 'w"
  browser_open :: "string \<Rightarrow> bool \<Rightarrow> 'w \<Rightarrow> open_outcome \<times> 'w"
  page_screenshot :: "string \<Rightarrow> 'w \<Rightarrow> js_error option \<times> 'w"
  screenshotsDir :: string

record 'w state =
  world :: 'w
  trace :: "event list"

definition emit :: "event \<Rightarrow> 'w state \<Rightarrow> 'w state" where
  "emit e s = s\<lparr>trace := trace s @ [e]\<rparr>"

definition call :: "event \<Rightarrow> ('w \<Rightarrow> 'a \<times> 'w) \<Rightarrow> 'w state \<Rightarrow> 'a \<times> 'w state" where
  "call e f s = (case f (world s) of (r, w') \<Rightarrow> (r, \<lparr>world = w', trace = trace s @ [e]\<rparr>))"

definition read_clock :: "'w env \<Rightarrow> 'w state \<Rightarrow> int \<times> 'w state" where
  "read_clock env s = (case date_now env (world s) of (t, w') \<Rightarrow> (t, s\<lparr>world := w'\<rparr>))"

subsection \<open>Site classifier\<close>

definition specialSites :: "string list" where
  "specialSites =
     [''amazon.com'', ''amazon.co.uk'', ''amazon.de'', ''amazon.fr'', ''amazon.in'',
      ''amazon.ca'', ''amazon.com.au'', ''ebay.com'', ''netflix.com'', ''facebook.com'',
      ''instagram.com'', ''twitter.com'', ''linkedin.com'']"

definition needsSpecialHandling :: "string \<Rightarrow> bool" where
  "needsSpecialHandling url = list_ex (\<lambda>site. includes_str (toLowerCase url) site) specialSites"

text \<open>
  The classifier the specification describes, for comparison: the same match, on the
  host component of the URL only. The host is what follows \<^verbatim>\<open>://\<close> up to the first
  \<^verbatim>\<open>/\<close>, \<^verbatim>\<open>?\<close> or \<^verbatim>\<open>#\<close>.
\<close>

fun after_scheme :: "string \<Rightarrow> string" where
  "after_scheme (a # b # c # rest) =
     (if [a, b, c] = ''://'' then rest else after_scheme (b # c # rest))"
| "after_scheme rest = rest"

definition host_component :: "string \<Rightarrow> string" where
  "host_component url = takeWhile (\<lambda>c. c \<notin> set ''/?#'') (after_scheme url)"

definition spec_classify_by_host :: "string \<Rightarrow> bool" where
  "spec_classify_by_host url =
     list_ex (\<lambda>site. includes_str (toLowerCase (host_component url)) site) specialSites"

subsection \<open>Certificate inspector\<close>

definition no_ssl :: SslInfo where
  "no_ssl =
     \<lparr>ssl_valid = False, ssl_renew_date = None, ssl_issued_date = None,
      ssl_expire_date = None, ssl_expires = None, ssl_days_remaining = None\<rparr>"

definition ms_per_day :: int where
  "ms_per_day = 1000 * 60 * 60 * 24"

text \<open>
  The secure-connect callback of \<^verbatim>\<open>getSSLCertificateInfo\<close>, once both dates of the
  certificate are there: \<open>now\<close> is the clock read inside the callback.
\<close>

definition certificate_record :: "'w env \<Rightarrow> int \<Rightarrow> int \<Rightarrow> int \<Rightarrow> SslInfo" where
  "certificate_record env now validFrom validTo =
     (let isValid = (now \<ge> validFrom \<and> now \<le> validTo);
          daysRemaining = (validTo - now) div ms_per_day;
          expire_date = toISODate env validTo;
          issued_date = toISODate env validFrom
      in \<lparr>ssl_valid = isValid,
          ssl_renew_date = Some issued_date,
          ssl_issued_date = Some issued_date,
          ssl_expire_date = Some expire_date,
          ssl_expires = Some expire_date,
          ssl_days_remaining = Some daysRemaining\<rparr>)"

text \<open>
  Strategy 1. \<^verbatim>\<open>new URL(url)\<close> is \<open>url_parse\<close>: \<open>None\<close> when it throws (the catch
  answers \<^verbatim>\<open>{ssl_valid: false}\<close>), else the host name and the port if the URL names one.
\<close>

definition getSSLCertificateInfo :: "'w env \<Rightarrow> string \<Rightarrow> 'w state \<Rightarrow> SslInfo \<times> 'w state" where
  "getSSLCertificateInfo env url s =
     (if \<not> startsWith url ''https://'' then (no_ssl, s)
      else case url_parse env url of
        None \<Rightarrow> (no_ssl, s)
      | Some (hostname, urlPort) \<Rightarrow>
          let port = (case urlPort of Some p \<Rightarrow> p | None \<Rightarrow> 443) in
          case call (TlsConnect port hostname) (tls_connect env port hostname) s of
            (SecureConnect cert, s1) \<Rightarrow>
              (case cert of
                 None \<Rightarrow> (no_ssl, s1)
               | Some c \<Rightarrow>
                   (case valid_from c of
                      None \<Rightarrow> (no_ssl, s1)
                    | Some validFrom \<Rightarrow>
                        (case valid_to c of
                           None \<Rightarrow> (no_ssl, s1)
                         | Some validTo \<Rightarrow>
                             (case read_clock env s1 of
                                (now, s2) \<Rightarrow>
                                  (certificate_record env now validFrom validTo, s2)))))
          | (SocketError, s1) \<Rightarrow> (no_ssl, s1)
          | (SocketTimeout, s1) \<Rightarrow> (no_ssl, s1))"

text \<open>
  Strategy 2. Its argument is the URL without the scheme
  (\<^verbatim>\<open>replace(/^https?:\/\//, "")\<close>) and without one trailing slash (\<^verbatim>\<open>replace(/\/$/, "")\<close>).
\<close>

definition strip_scheme :: "string \<Rightarrow> string" where
  "strip_scheme url =
     (if startsWith url ''https://'' then drop 8 url
      else if startsWith url ''http://'' then drop 7 url
      else url)"

definition strip_trailing_slash :: "string \<Rightarrow> string" where
  "strip_trailing_slash h = (if h \<noteq> [] \<and> last h = CHR ''/'' then butlast h else h)"

definition checkSSLWithChecker :: "'w env \<Rightarrow> string \<Rightarrow> 'w state \<Rightarrow> SslInfo \<times> 'w state" where
  "checkSSLWithChecker env url s =
     (if \<not> startsWith url ''https://'' then (no_ssl, s)
      else
        let host = strip_trailing_slash (strip_scheme url) in
        case call (SslChecker host) (sslChecker env host) s of
          (CheckerResolves r, s1) \<Rightarrow>
            (\<lparr>ssl_valid = checker_valid r,
              ssl_renew_date = Some (checker_validFrom r),
              ssl_issued_date = Some (checker_validFrom r),
              ssl_expire_date = Some (checker_validTo r),
              ssl_expires = Some (checker_validTo r),
              ssl_days_remaining = Some (checker_daysRemaining r)\<rparr>, s1)
        | (CheckerRejects, s1) \<Rightarrow> (no_ssl, s1))"

text \<open>
  The block \<^verbatim>\<open>checkWebsiteStatus\<close> runs on both of its paths (lines 185-205 and 227-246)
  to fill \<^verbatim>\<open>sslInfo\<close>: it starts from \<^verbatim>\<open>{ssl_valid: false}\<close> and takes a strategy's
  record only when that record is valid.
\<close>

definition selectSslInfo :: "'w env \<Rightarrow> string \<Rightarrow> 'w state \<Rightarrow> SslInfo \<times> 'w state" where
  "selectSslInfo env url s =
     (if startsWith url ''https://'' then
        (case getSSLCertificateInfo env url s of
           (nativeSslInfo, s1) \<Rightarrow>
             if ssl_valid nativeSslInfo then (nativeSslInfo, s1)
             else
               (case checkSSLWithChecker env url s1 of
                  (checkerSslInfo, s2) \<Rightarrow>
                    if ssl_valid checkerSslInfo then (checkerSslInfo, s2) else (no_ssl, s2)))
      else (no_ssl, s))"

subsection \<open>Liveness prober\<close>

definition error_message_of :: "js_error \<Rightarrow> string" where
  "error_message_of error =
     (if err_name error = ''AbortError'' then ''Request timeout''
      else if truthy (err_message error) then take 100 (the (err_message error))
      else ''Connection failed'')"

definition checkWebsiteStatus :: "'w env \<Rightarrow> string \<Rightarrow> 'w state \<Rightarrow> StatusCheck \<times> 'w state" where
  "checkWebsiteStatus env url s =
     (case read_clock env s of
        (startTime, s0) \<Rightarrow>
          (case call (Fetch url) (fetch env url) s0 of
             (Response response_ok, s1) \<Rightarrow>
               (case read_clock env s1 of
                  (t, s2) \<Rightarrow>
                    (case selectSslInfo env url s2 of
                       (sslInfo, s3) \<Rightarrow>
                         (\<lparr>ssl_valid =
                              (startsWith url ''https://'' \<and> (response_ok \<or> ssl_valid sslInfo)),
                           ssl_renew_date = ssl_renew_date sslInfo,
                           ssl_issued_date = js_or (ssl_issued_date sslInfo) (ssl_renew_date sslInfo),
                           ssl_expire_date = ssl_expire_date sslInfo,
                           ssl_expires = js_or (ssl_expires sslInfo) (ssl_expire_date sslInfo),
                           ssl_days_remaining = ssl_days_remaining sslInfo,
                           status = (if response_ok then Up else Down),
                           response_time = Some (t - startTime),
                           error_message = None\<rparr>, s3)))
           | (FetchThrows error, s1) \<Rightarrow>
               (case read_clock env s1 of
                  (t, s2) \<Rightarrow>
                    (case selectSslInfo env url s2 of
                       (sslInfo, s3) \<Rightarrow>
                         (\<lparr>ssl_valid = ssl_valid sslInfo,
                           ssl_renew_date = ssl_renew_date sslInfo,
                           ssl_issued_date = js_or (ssl_issued_date sslInfo) (ssl_renew_date sslInfo),
                           ssl_expire_date = ssl_expire_date sslInfo,
                           ssl_expires = js_or (ssl_expires sslInfo) (ssl_expire_date sslInfo),
                           ssl_days_remaining = ssl_days_remaining sslInfo,
                           status = Error,
                           response_time = Some (t - startTime),
                           error_message = Some (error_message_of error)\<rparr>, s3)))))"

subsection \<open>Screenshot capturer\<close>

text \<open>
  The try block of \<^verbatim>\<open>takeScreenshot\<close>: what it returns or throws, whether \<^verbatim>\<open>browser\<close>
  was assigned, and the state it leaves.
\<close>

definition screenshot_attempt ::
  "'w env \<Rightarrow> string \<Rightarrow> int \<Rightarrow> bool \<Rightarrow> 'w state \<Rightarrow> (js_error + string) \<times> bool \<times> 'w state" where
  "screenshot_attempt env url ident isSpecialSite s =
     (case call BrowserLaunch (browser_open env url isSpecialSite) s of
        (LaunchThrows error, s1) \<Rightarrow> (Inl error, False, s1)
      | (PageThrows error, s1) \<Rightarrow> (Inl error, True, s1)
      | (PageReady, s1) \<Rightarrow>
          (case read_clock env s1 of
             (now, s2) \<Rightarrow>
               let fileName = number_toString ident @ ''_'' @ number_toString now @ ''.png'';
                   filePath = screenshotsDir env @ ''/'' @ fileName
               in case call (PageScreenshot filePath) (page_screenshot env filePath) s2 of
                    (Some error, s3) \<Rightarrow> (Inl error, True, s3)
                  | (None, s3) \<Rightarrow> (Inr (''/screenshots/'' @ fileName), True, s3)))"

definition close_browser :: "bool \<Rightarrow> 'w state \<Rightarrow> 'w state" where
  "close_browser browser s = (if browser then emit BrowserClose s else s)"

text \<open>
  The error test of the catch block,
  \<^verbatim>\<open>error?.message && (error.message.includes("timeout") || error.message.includes("Navigation"))\<close>:
  a case-sensitive substring test on the message.
\<close>

definition timeout_or_navigation :: "js_error \<Rightarrow> bool" where
  "timeout_or_navigation error =
     (truthy (err_message error) \<and>
      (includes_str (the (err_message error)) ''timeout'' \<or>
       includes_str (the (err_message error)) ''Navigation''))"

text \<open>
  When the test holds and \<^verbatim>\<open>retryCount < 1\<close>, the catch block closes the browser, waits
  two seconds and evaluates \<^verbatim>\<open>return takeScreenshot(url, id, retryCount + 1)\<close>. The retry
  is not awaited there: it runs up to its first await, the call of \<^verbatim>\<open>chromium.launch\<close>;
  then the finally block of the first attempt closes the first browser once more; then the
  retry goes on, and its result is the result of the call. So when \<open>n\<close> events were
  recorded before the retry started, the finally block's close is the event after the
  retry's launch, at position \<open>n + 1\<close> of the trace. Closing a browser and sleeping
  are recorded in the trace and are taken not to throw.
\<close>

definition close_after_retry_launch :: "bool \<Rightarrow> nat \<Rightarrow> 'w state \<Rightarrow> 'w state" where
  "close_after_retry_launch browser n s =
     (if browser
      then s\<lparr>trace := take (Suc n) (trace s) @ [BrowserClose] @ drop (Suc n) (trace s)\<rparr>
      else s)"

function takeScreenshot ::
  "'w env \<Rightarrow> string \<Rightarrow> int \<Rightarrow> int \<Rightarrow> 'w state \<Rightarrow> string option \<times> 'w state" where
  "takeScreenshot env url ident retryCount s =
     (case screenshot_attempt env url ident (needsSpecialHandling url) s of
        (Inr path, browser, s1) \<Rightarrow> (Some path, close_browser browser s1)
      | (Inl error, browser, s1) \<Rightarrow>
          if retryCount < 1 \<and> timeout_or_navigation error then
            (case takeScreenshot env url ident (retryCount + 1)
                    (emit (Sleep 2000) (close_browser browser s1)) of
               (r, s2) \<Rightarrow>
                 (r, close_after_retry_launch browser
                       (length (trace (emit (Sleep 2000) (close_browser browser s1)))) s2))
          else (None, close_browser browser s1))"
  by pat_completeness auto
termination
  by (relation "measure (\<lambda>(env, url, ident, retryCount, s). nat (1 - retryCount))") auto

declare takeScreenshot.simps [simp del]

subsection \<open>Pipeline orchestrator\<close>

text \<open>
  The loop body of \<^verbatim>\<open>POST\<close>. \<^verbatim>\<open>(await takeScreenshot(...)) || undefined\<close> turns a null
  or empty path into an absent one; the override mutates \<^verbatim>\<open>statusCheck\<close> before the
  result is built from it.
\<close>

definition processWebsite ::
  "'w env \<Rightarrow> Website \<Rightarrow> 'w state \<Rightarrow> ScreenshotResult \<times> 'w state" where
  "processWebsite env website s =
     (case checkWebsiteStatus env (w_url website) s of
        (statusCheck, s1) \<Rightarrow>
          (case takeScreenshot env (w_url website) (w_id website) 0 s1 of
             (shot, s2) \<Rightarrow>
               let path = js_or shot None;
                   override = (truthy path \<and> status statusCheck \<noteq> Up);
                   status' = (if override then Up else status statusCheck);
                   ssl_valid' =
                     (if override \<and> startsWith (w_url website) ''https://'' then True
                      else ssl_valid statusCheck)
               in (\<lparr>ssl_valid = ssl_valid',
                    ssl_renew_date = ssl_renew_date statusCheck,
                    ssl_issued_date = ssl_issued_date statusCheck,
                    ssl_expire_date = ssl_expire_date statusCheck,
                    ssl_expires = ssl_expires statusCheck,
                    ssl_days_remaining = ssl_days_remaining statusCheck,
                    status = status',
                    response_time = response_time statusCheck,
                    error_message = (if truthy path then None else error_message statusCheck),
                    r_id = w_id website,
                    r_url = w_url website,
                    screenshot_path = path\<rparr>, s2)))"

fun process_loop ::
  "'w env \<Rightarrow> Website list \<Rightarrow> ScreenshotResult list \<Rightarrow> 'w state \<Rightarrow>
   ScreenshotResult list \<times> 'w state" where
  "process_loop env [] results s = (results, s)"
| "process_loop env (website # rest) results s =
     (case processWebsite env website s of
        (result, s') \<Rightarrow> process_loop env rest (results @ [result]) s')"

text \<open>
  What \<^verbatim>\<open>await request.json()\<close> gives the handler: it throws, or it is \<^verbatim>\<open>null\<close> (the
  destructuring throws), or it is a value whose \<^verbatim>\<open>websites\<close> property reads as the given
  JavaScript value. The elements of an array are taken at their declared type
  \<^verbatim>\<open>Website\<close>.
\<close>

datatype js_value =
    JsUndefined
  | JsNull
  | JsBoolean bool
  | JsNumber int
  | JsString string
  | JsObject
  | JsArray "Website list"

fun js_truthy :: "js_value \<Rightarrow> bool" where
  "js_truthy JsUndefined = False"
| "js_truthy JsNull = False"
| "js_truthy (JsBoolean b) = b"
| "js_truthy (JsNumber n) = (n \<noteq> 0)"
| "js_truthy (JsString str) = (str \<noteq> [])"
| "js_truthy JsObject = True"
| "js_truthy (JsArray xs) = True"

fun isArray :: "js_value \<Rightarrow> bool" where
  "isArray (JsArray xs) = True"
| "isArray v = False"

fun array_items :: "js_value \<Rightarrow> Website list" where
  "array_items (JsArray xs) = xs"
| "array_items v = []"

datatype request_json =
    JsonThrows
  | JsonNull
  | Body js_value

datatype response =
    ErrorResponse string nat
  | ResultsResponse "ScreenshotResult list"

definition POST :: "'w env \<Rightarrow> request_json \<Rightarrow> 'w state \<Rightarrow> response \<times> 'w state" where
  "POST env request s =
     (case request of
        JsonThrows \<Rightarrow> (ErrorResponse ''Internal server error'' 500, s)
      | JsonNull \<Rightarrow> (ErrorResponse ''Internal server error'' 500, s)
      | Body websites \<Rightarrow>
          if \<not> js_truthy websites \<or> \<not> isArray websites \<or> length (array_items websites) = 0
          then (ErrorResponse ''No websites provided'' 400, s)
          else
            (case process_loop env (array_items websites) [] s of
               (results, s') \<Rightarrow> (ResultsResponse results, s')))"

subsection \<open>Observations\<close>

text \<open>Browser launches and retry back-offs recorded in a trace.\<close>

definition launches :: "'w state \<Rightarrow> nat" where
  "launches s = count_list (trace s) BrowserLaunch"

definition backoffs :: "'w state \<Rightarrow> nat" where
  "backoffs s = count_list (trace s) (Sleep 2000)"


subsection \<open>Example environments\<close>

text \<open>
  Concrete environments for the worked examples below. The world is a pair: the number of
  external calls made so far and the number of browser launches so far. The clock reads
  \<open>clock n\<close> at the \<open>n\<close>-th call, the \<open>k\<close>-th launch has the outcome \<open>b k\<close>, and the
  fetch, the handshake and the checker answer \<open>f\<close>, \<open>t\<close> and \<open>c\<close>. The date printer
  is a stand-in that prints the day number.
\<close>

definition example_url_parse :: "string \<Rightarrow> (string \<times> nat option) option" where
  "example_url_parse url =
     (if host_component url = [] then None else Some (host_component url, None))"

definition example_date :: "int \<Rightarrow> string" where
  "example_date ms = ''day-'' @ number_toString (ms div ms_per_day)"

definition example_clock :: "nat \<Rightarrow> int" where
  "example_clock n = 1700000000000 + 1000 * int n"

definition example_env ::
  "(string \<Rightarrow> fetch_outcome) \<Rightarrow> tls_outcome \<Rightarrow> checker_outcome \<Rightarrow> (nat \<Rightarrow> open_outcome) \<Rightarrow>
   (nat \<Rightarrow> int) \<Rightarrow> (nat \<times> nat) env" where
  "example_env f t c b clock =
     \<lparr>date_now = (\<lambda>(n, k). (clock n, (Suc n, k))),
      fetch = (\<lambda>url (n, k). (f url, (Suc n, k))),
      url_parse = example_url_parse,
      tls_connect = (\<lambda>port hostname (n, k). (t, (Suc n, k))),
      toISODate = example_date,
      sslChecker = (\<lambda>host (n, k). (c, (Suc n, k))),
      browser_open = (\<lambda>url isSpecialSite (n, k). (b k, (Suc n, Suc k))),
      page_screenshot = (\<lambda>filePath (n, k). (None, (Suc n, k))),
      screenshotsDir = ''/app/public/screenshots''\<rparr>"

definition start :: "(nat \<times> nat) state" where
  "start = \<lparr>world = (0, 0), trace = []\<rparr>"

definition handshake :: "int \<Rightarrow> int \<Rightarrow> tls_outcome" where
  "handshake notBefore notAfter = SecureConnect (Some (PeerCert (Some notBefore) (Some notAfter)))"

definition abort_error :: js_error where
  "abort_error = JsError ''AbortError'' (Some ''This operation was aborted'')"

definition fetch_failed :: js_error where
  "fetch_failed = JsError ''TypeError'' (Some ''fetch failed'')"

definition navigation_timeout :: js_error where
  "navigation_timeout = JsError ''TimeoutError'' (Some ''Navigation timeout of 45000 ms exceeded'')"

text \<open>The error Playwright raises when \<^verbatim>\<open>page.goto\<close> exceeds its 45 s timeout.\<close>

definition playwright_timeout :: js_error where
  "playwright_timeout = JsError ''TimeoutError'' (Some ''page.goto: Timeout 45000ms exceeded.'')"

text \<open>A certificate that expired long ago, as each strategy reports it.\<close>

definition expired_handshake :: tls_outcome where
  "expired_handshake = handshake 1600000000000 1650000000000"

definition expired_report :: checker_outcome where
  "expired_report =
     CheckerResolves
       \<lparr>checker_valid = False,
        checker_validFrom = ''2020-09-13T12:26:40.000Z'',
        checker_validTo = ''2022-04-15T05:20:00.000Z'',
        checker_daysRemaining = - 579\<rparr>"

text \<open>
  Everything works; a handshake made first thing reads the clock at 1700000001000, and the
  certificate expires exactly ten days after that.
\<close>

definition env_healthy :: "(nat \<times> nat) env" where
  "env_healthy =
     example_env (\<lambda>url. Response True) (handshake 1699000000000 1700864001000) CheckerRejects
       (\<lambda>k. PageReady) example_clock"

text \<open>The probe is answered, the certificate has expired, the page renders.\<close>

definition env_expired :: "(nat \<times> nat) env" where
  "env_expired =
     example_env (\<lambda>url. Response True) expired_handshake expired_report (\<lambda>k. PageReady)
       example_clock"

text \<open>
  The probe is answered with a failure status (a bot wall), the certificate is good, the
  page renders.
\<close>

definition env_blocked :: "(nat \<times> nat) env" where
  "env_blocked =
     example_env (\<lambda>url. Response False) (handshake 1699000000000 1700864004000) CheckerRejects
       (\<lambda>k. PageReady) example_clock"

text \<open>
  The probe is answered with a failure status and both certificate strategies are turned
  away, yet the page renders.
\<close>

definition env_walled :: "(nat \<times> nat) env" where
  "env_walled =
     example_env (\<lambda>url. Response False) SocketError CheckerRejects (\<lambda>k. PageReady)
       example_clock"

text \<open>
  The probe is aborted by its timeout, the certificate is good, the first navigation
  times out and the second renders.
\<close>

definition env_slow :: "(nat \<times> nat) env" where
  "env_slow =
     example_env (\<lambda>url. FetchThrows abort_error) (handshake 1699000000000 1700864004000)
       CheckerRejects (\<lambda>k. if k = 0 then PageThrows navigation_timeout else PageReady)
       example_clock"

text \<open>Nothing answers: the fetch fails, the socket errors, every navigation times out.\<close>

definition env_unreachable :: "(nat \<times> nat) env" where
  "env_unreachable =
     example_env (\<lambda>url. FetchThrows fetch_failed) SocketError CheckerRejects
       (\<lambda>k. PageThrows navigation_timeout) example_clock"

text \<open>The site answers the probe, and every navigation runs into Playwright's timeout.\<close>

definition env_goto_timeout :: "(nat \<times> nat) env" where
  "env_goto_timeout =
     example_env (\<lambda>url. Response True) SocketError CheckerRejects
       (\<lambda>k. PageThrows playwright_timeout) example_clock"

text \<open>
  Everything works, but the wall clock is set back by one second between any two external
  calls.
\<close>

definition env_clock_set_back :: "(nat \<times> nat) env" where
  "env_clock_set_back =
     example_env (\<lambda>url. Response True) SocketError CheckerRejects (\<lambda>k. PageReady)
       (\<lambda>n. 1700000000000 - 1000 * int n)"

definition secure_site :: Website where
  "secure_site = \<lparr>w_id = 1, w_url = ''https://example.com''\<rparr>"

definition plain_site :: Website where
  "plain_site = \<lparr>w_id = 2, w_url = ''http://example.org''\<rparr>"

section \<open>Properties\<close>

subsection \<open>Site classifier\<close>

lemma includes_str_iff: "includes_str s sub \<longleftrightarrow> (\<exists>pre post. s = pre @ sub @ post)"
  by (simp add: includes_str_def sublist_def)

lemmas classifier_eval =
  needsSpecialHandling_def spec_classify_by_host_def host_component_def specialSites_def
  includes_str_def toLowerCase_def toLowerChar_def sublist_code

text \<open>
  Claim C8, as written: the classifier matches the hardened domains against the host
  component of the URL, so that the path and the query have no effect. The code matches
  against the whole URL string: a URL on the host \<^verbatim>\<open>example.com\<close> whose path contains
  \<^verbatim>\<open>amazon.com\<close> is classified as hardened, while the same host with another path is not.
\<close>

theorem C8_path_changes_classification:
  "host_component ''https://example.com/amazon.com'' = ''example.com'' \<and>
   host_component ''https://example.com/'' = ''example.com'' \<and>
   needsSpecialHandling ''https://example.com/amazon.com'' \<and>
   \<not> needsSpecialHandling ''https://example.com/'' \<and>
   \<not> spec_classify_by_host ''https://example.com/amazon.com''"
  by (simp add: classifier_eval)

text \<open>
  Claim C8, amended: the classifier is a total function of the URL string alone; it
  answers true exactly when the lower-cased URL, taken whole (scheme, host, path and
  query), contains one of the listed domains as a substring, and two URLs that differ
  only in letter case are classified alike.
\<close>

theorem C8_classifier_whole_url:
  "(needsSpecialHandling url \<longleftrightarrow>
      (\<exists>site pre post. site \<in> set specialSites \<and> toLowerCase url = pre @ site @ post)) \<and>
   (toLowerCase url' = toLowerCase url \<longrightarrow>
      needsSpecialHandling url' = needsSpecialHandling url)"
proof
  show "needsSpecialHandling url \<longleftrightarrow>
      (\<exists>site pre post. site \<in> set specialSites \<and> toLowerCase url = pre @ site @ post)"
    unfolding needsSpecialHandling_def list_ex_iff includes_str_iff by blast
  show "toLowerCase url' = toLowerCase url \<longrightarrow>
      needsSpecialHandling url' = needsSpecialHandling url"
    by (simp add: needsSpecialHandling_def)
qed

theorem C8_classifier_whole_url_witness:
  "toLowerCase ''https://WWW.Amazon.com/dp/1'' = toLowerCase ''https://www.amazon.com/dp/1'' \<and>
   needsSpecialHandling ''https://WWW.Amazon.com/dp/1'' \<and>
   needsSpecialHandling ''https://www.amazon.com/dp/1'' \<and>
   (\<exists>site pre post. site \<in> set specialSites \<and>
      toLowerCase ''https://WWW.Amazon.com/dp/1'' = pre @ site @ post)"
proof -
  have same: "toLowerCase ''https://WWW.Amazon.com/dp/1'' = toLowerCase ''https://www.amazon.com/dp/1''"
    by (simp add: toLowerCase_def toLowerChar_def)
  have lower: "needsSpecialHandling ''https://www.amazon.com/dp/1''"
    by (simp add: classifier_eval)
  have upper: "needsSpecialHandling ''https://WWW.Amazon.com/dp/1''"
    using C8_classifier_whole_url [of "''https://www.amazon.com/dp/1''" "''https://WWW.Amazon.com/dp/1''"]
      same lower by simp
  from upper C8_classifier_whole_url [of "''https://WWW.Amazon.com/dp/1''" "''https://WWW.Amazon.com/dp/1''"]
  have "\<exists>site pre post. site \<in> set specialSites \<and>
      toLowerCase ''https://WWW.Amazon.com/dp/1'' = pre @ site @ post"
    by blast
  with same lower upper show ?thesis by blast
qed

subsection \<open>Evaluation\<close>

lemmas model_eval =
  POST_def processWebsite_def checkWebsiteStatus_def selectSslInfo_def
  getSSLCertificateInfo_def checkSSLWithChecker_def certificate_record_def no_ssl_def
  screenshot_attempt_def close_browser_def timeout_or_navigation_def error_message_of_def
  strip_scheme_def strip_trailing_slash_def ms_per_day_def launches_def backoffs_def
  call_def read_clock_def emit_def startsWith_def includes_str_def truthy_def js_or_def
  number_toString_def digit_char_def decimal_digits.simps
  example_env_def example_url_parse_def example_date_def example_clock_def start_def
  handshake_def abort_error_def fetch_failed_def navigation_timeout_def playwright_timeout_def
  env_goto_timeout_def env_clock_set_back_def close_after_retry_launch_def
  expired_handshake_def expired_report_def
  env_healthy_def env_expired_def env_blocked_def env_walled_def env_slow_def env_unreachable_def
  secure_site_def plain_site_def
  host_component_def needsSpecialHandling_def specialSites_def toLowerCase_def toLowerChar_def
  sublist_code Let_def takeScreenshot.simps

subsection \<open>Certificate inspector\<close>

lemma getSSLCertificateInfo_not_https:
  "\<not> startsWith url ''https://'' \<Longrightarrow> getSSLCertificateInfo env url s = (no_ssl, s)"
  by (simp add: getSSLCertificateInfo_def)

lemma checkSSLWithChecker_not_https:
  "\<not> startsWith url ''https://'' \<Longrightarrow> checkSSLWithChecker env url s = (no_ssl, s)"
  by (simp add: checkSSLWithChecker_def)

lemma selectSslInfo_not_https:
  "\<not> startsWith url ''https://'' \<Longrightarrow> selectSslInfo env url s = (no_ssl, s)"
  by (simp add: selectSslInfo_def)

lemma getSSLCertificateInfo_connected:
  assumes "startsWith url ''https://''"
    and "url_parse env url = Some (hostname, urlPort)"
    and "tls_connect env (case urlPort of Some p \<Rightarrow> p | None \<Rightarrow> 443) hostname (world s) =
           (SecureConnect (Some (PeerCert (Some notBefore) (Some notAfter))), w1)"
    and "date_now env w1 = (now, w2)"
  shows "fst (getSSLCertificateInfo env url s) = certificate_record env now notBefore notAfter"
  using assms by (simp add: getSSLCertificateInfo_def call_def read_clock_def)

lemma getSSLCertificateInfo_trace:
  "getSSLCertificateInfo env url s = (r, s') \<Longrightarrow>
     trace s' = trace s \<or> (\<exists>port hostname. trace s' = trace s @ [TlsConnect port hostname])"
  by (auto simp: getSSLCertificateInfo_def Let_def call_def read_clock_def
      split: if_splits option.splits prod.splits tls_outcome.splits)

text \<open>
  Claim C6: when the direct handshake delivers a certificate with both dates, the record
  is valid exactly when the clock read in the callback lies in the closed window from
  \<open>notBefore\<close> to \<open>notAfter\<close> (both ends included), and the days remaining are the
  floor of \<open>(notAfter - now)\<close> over one day of 86400000 ms. So a certificate whose
  expiry lies in the past is not valid, and one that expires ten days from now has ten
  days remaining.
\<close>

theorem C6_direct_handshake_record:
  assumes "startsWith url ''https://''"
    and "url_parse env url = Some (hostname, urlPort)"
    and "tls_connect env (case urlPort of Some p \<Rightarrow> p | None \<Rightarrow> 443) hostname (world s) =
           (SecureConnect (Some (PeerCert (Some notBefore) (Some notAfter))), w1)"
    and "date_now env w1 = (now, w2)"
  shows "(ssl_valid (fst (getSSLCertificateInfo env url s)) \<longleftrightarrow>
            notBefore \<le> now \<and> now \<le> notAfter) \<and>
         (\<exists>d. ssl_days_remaining (fst (getSSLCertificateInfo env url s)) = Some d \<and>
              d = (notAfter - now) div 86400000 \<and>
              d * 86400000 \<le> notAfter - now \<and> notAfter - now < (d + 1) * 86400000) \<and>
         (notAfter < now \<longrightarrow> \<not> ssl_valid (fst (getSSLCertificateInfo env url s))) \<and>
         (notAfter = now + 10 * 86400000 \<longrightarrow>
            ssl_days_remaining (fst (getSSLCertificateInfo env url s)) = Some 10)"
proof -
  have r: "fst (getSSLCertificateInfo env url s) = certificate_record env now notBefore notAfter"
    using assms by (rule getSSLCertificateInfo_connected)
  have v: "ssl_valid (certificate_record env now notBefore notAfter) \<longleftrightarrow>
             notBefore \<le> now \<and> now \<le> notAfter"
    by (simp add: certificate_record_def Let_def)
  have d: "ssl_days_remaining (certificate_record env now notBefore notAfter) =
             Some ((notAfter - now) div 86400000)"
    by (simp add: certificate_record_def Let_def ms_per_day_def)
  have lo: "(notAfter - now) div 86400000 * 86400000 \<le> notAfter - now"
    by simp
  have hi: "notAfter - now < ((notAfter - now) div 86400000 + 1) * 86400000"
  proof -
    have "(notAfter - now) mod 86400000 < 86400000" by simp
    moreover have "(notAfter - now) div 86400000 * 86400000 + (notAfter - now) mod 86400000 =
        notAfter - now" by simp
    ultimately show ?thesis by (simp add: algebra_simps)
  qed
  show ?thesis
    using v d lo hi unfolding r by auto
qed

text \<open>
  A handshake one second after 1700000000000 on a certificate that expires exactly ten
  days later: it is valid, with ten days remaining.
\<close>

theorem C6_direct_handshake_record_witness:
  "startsWith ''https://example.com'' ''https://'' \<and>
   url_parse env_healthy ''https://example.com'' = Some (''example.com'', None) \<and>
   tls_connect env_healthy (case None of Some p \<Rightarrow> p | None \<Rightarrow> 443) ''example.com''
       (world start) =
     (SecureConnect (Some (PeerCert (Some 1699000000000) (Some 1700864001000))), (1, 0)) \<and>
   date_now env_healthy (1, 0) = (1700000001000, (2, 0)) \<and>
   (1700864001000 :: int) = 1700000001000 + 10 * 86400000 \<and>
   ssl_valid (fst (getSSLCertificateInfo env_healthy ''https://example.com'' start)) \<and>
   ssl_days_remaining (fst (getSSLCertificateInfo env_healthy ''https://example.com'' start)) =
     Some 10"
proof -
  have h1: "startsWith ''https://example.com'' ''https://''"
    by (simp add: startsWith_def)
  have h2: "url_parse env_healthy ''https://example.com'' = Some (''example.com'', None)"
    by (simp add: model_eval)
  have h3: "tls_connect env_healthy (case None of Some p \<Rightarrow> p | None \<Rightarrow> 443) ''example.com''
       (world start) =
     (SecureConnect (Some (PeerCert (Some 1699000000000) (Some 1700864001000))), (1, 0))"
    by (simp add: model_eval)
  have h4: "date_now env_healthy (1, 0) = (1700000001000, (2, 0))"
    by (simp add: model_eval)
  from C6_direct_handshake_record [OF h1 h2 h3 h4]
  have "ssl_valid (fst (getSSLCertificateInfo env_healthy ''https://example.com'' start)) \<and>
        ssl_days_remaining (fst (getSSLCertificateInfo env_healthy ''https://example.com'' start)) =
          Some 10"
    by simp
  with h1 h2 h3 h4 show ?thesis by simp
qed

subsection \<open>Liveness prober\<close>

lemma read_clock_trace: "read_clock env s = (t, s') \<Longrightarrow> trace s' = trace s"
  by (auto simp: read_clock_def split: prod.splits)

lemma call_trace: "call e f s = (r, s') \<Longrightarrow> trace s' = trace s @ [e]"
  by (auto simp: call_def split: prod.splits)

lemma checkWebsiteStatus_response:
  assumes "read_clock env s = (startTime, s0)"
    and "call (Fetch url) (fetch env url) s0 = (Response response_ok, s1)"
    and "read_clock env s1 = (t, s2)"
    and "selectSslInfo env url s2 = (sslInfo, s3)"
  shows "checkWebsiteStatus env url s =
    (\<lparr>ssl_valid = (startsWith url ''https://'' \<and> (response_ok \<or> ssl_valid sslInfo)),
      ssl_renew_date = ssl_renew_date sslInfo,
      ssl_issued_date = js_or (ssl_issued_date sslInfo) (ssl_renew_date sslInfo),
      ssl_expire_date = ssl_expire_date sslInfo,
      ssl_expires = js_or (ssl_expires sslInfo) (ssl_expire_date sslInfo),
      ssl_days_remaining = ssl_days_remaining sslInfo,
      status = (if response_ok then Up else Down),
      response_time = Some (t - startTime),
      error_message = None\<rparr>, s3)"
  using assms by (simp add: checkWebsiteStatus_def)

lemma checkWebsiteStatus_throws:
  assumes "read_clock env s = (startTime, s0)"
    and "call (Fetch url) (fetch env url) s0 = (FetchThrows error, s1)"
    and "read_clock env s1 = (t, s2)"
    and "selectSslInfo env url s2 = (sslInfo, s3)"
  shows "checkWebsiteStatus env url s =
    (\<lparr>ssl_valid = ssl_valid sslInfo,
      ssl_renew_date = ssl_renew_date sslInfo,
      ssl_issued_date = js_or (ssl_issued_date sslInfo) (ssl_renew_date sslInfo),
      ssl_expire_date = ssl_expire_date sslInfo,
      ssl_expires = js_or (ssl_expires sslInfo) (ssl_expire_date sslInfo),
      ssl_days_remaining = ssl_days_remaining sslInfo,
      status = Error,
      response_time = Some (t - startTime),
      error_message = Some (error_message_of error)\<rparr>, s3)"
  using assms by (simp add: checkWebsiteStatus_def)

text \<open>
  Claim C4: when the fetch is answered, \<open>ssl_valid\<close> of the probe result is
  "the URL starts with \<^verbatim>\<open>https://\<close>, and the response was ok or the certificate inspector
  reported a valid record". For a URL that does not start with \<^verbatim>\<open>https://\<close> it is false,
  the probe makes no external call but the fetch, and each certificate strategy, asked
  directly, answers \<^verbatim>\<open>{ssl_valid: false}\<close> and leaves the state (world and trace) as it
  was. The scheme test is the source's: \<^verbatim>\<open>url.startsWith("https://")\<close>.
\<close>

theorem C4_ssl_valid_on_response:
  assumes "read_clock env s = (startTime, s0)"
    and "call (Fetch url) (fetch env url) s0 = (Response response_ok, s1)"
    and "read_clock env s1 = (t, s2)"
  shows "(ssl_valid (fst (checkWebsiteStatus env url s)) \<longleftrightarrow>
            startsWith url ''https://'' \<and>
            (response_ok \<or> ssl_valid (fst (selectSslInfo env url s2)))) \<and>
         (\<not> startsWith url ''https://'' \<longrightarrow>
            \<not> ssl_valid (fst (checkWebsiteStatus env url s)) \<and>
            trace (snd (checkWebsiteStatus env url s)) = trace s @ [Fetch url] \<and>
            (\<forall>s'. getSSLCertificateInfo env url s' = (no_ssl, s') \<and>
                  checkSSLWithChecker env url s' = (no_ssl, s')) \<and>
            \<not> ssl_valid no_ssl)"
proof -
  obtain sslInfo s3 where sel: "selectSslInfo env url s2 = (sslInfo, s3)"
    by (cases "selectSslInfo env url s2")
  note res = checkWebsiteStatus_response [OF assms sel]
  have first: "ssl_valid (fst (checkWebsiteStatus env url s)) \<longleftrightarrow>
            startsWith url ''https://'' \<and>
            (response_ok \<or> ssl_valid (fst (selectSslInfo env url s2)))"
    by (simp add: res sel)
  have second: "\<not> ssl_valid (fst (checkWebsiteStatus env url s)) \<and>
            trace (snd (checkWebsiteStatus env url s)) = trace s @ [Fetch url] \<and>
            (\<forall>s'. getSSLCertificateInfo env url s' = (no_ssl, s') \<and>
                  checkSSLWithChecker env url s' = (no_ssl, s')) \<and>
            \<not> ssl_valid no_ssl" if plain: "\<not> startsWith url ''https://''"
  proof -
    have "s3 = s2"
      using sel selectSslInfo_not_https [OF plain, of env s2] by simp
    moreover have "trace s2 = trace s @ [Fetch url]"
      using assms by (simp add: read_clock_trace call_trace)
    ultimately show ?thesis
      using plain first
      by (simp add: res getSSLCertificateInfo_not_https checkSSLWithChecker_not_https no_ssl_def)
  qed
  from first second show ?thesis by blast
qed

text \<open>
  A bot wall answers the probe of an https site with a failure status while the
  certificate is good: \<open>ssl_valid\<close> is true. On the plain-http site it is false and the
  trace holds the fetch alone.
\<close>

theorem C4_ssl_valid_on_response_witness:
  "read_clock env_blocked start = (1700000000000, \<lparr>world = (1, 0), trace = []\<rparr>) \<and>
   call (Fetch ''https://example.com'') (fetch env_blocked ''https://example.com'')
       \<lparr>world = (1, 0), trace = []\<rparr> =
     (Response False, \<lparr>world = (2, 0), trace = [Fetch ''https://example.com'']\<rparr>) \<and>
   call (Fetch ''http://example.org'') (fetch env_blocked ''http://example.org'')
       \<lparr>world = (1, 0), trace = []\<rparr> =
     (Response False, \<lparr>world = (2, 0), trace = [Fetch ''http://example.org'']\<rparr>) \<and>
   ssl_valid (fst (selectSslInfo env_blocked ''https://example.com''
       \<lparr>world = (3, 0), trace = [Fetch ''https://example.com'']\<rparr>)) \<and>
   ssl_valid (fst (checkWebsiteStatus env_blocked ''https://example.com'' start)) \<and>
   \<not> startsWith ''http://example.org'' ''https://'' \<and>
   \<not> ssl_valid (fst (checkWebsiteStatus env_blocked ''http://example.org'' start)) \<and>
   trace (snd (checkWebsiteStatus env_blocked ''http://example.org'' start)) =
     [Fetch ''http://example.org'']"
proof -
  have h1: "read_clock env_blocked start = (1700000000000, \<lparr>world = (1, 0), trace = []\<rparr>)"
    by (simp add: model_eval)
  have h2: "call (Fetch ''https://example.com'') (fetch env_blocked ''https://example.com'')
       \<lparr>world = (1, 0), trace = []\<rparr> =
     (Response False, \<lparr>world = (2, 0), trace = [Fetch ''https://example.com'']\<rparr>)"
    by (simp add: model_eval)
  have h3: "read_clock env_blocked \<lparr>world = (2, 0), trace = [Fetch ''https://example.com'']\<rparr> =
     (1700000002000, \<lparr>world = (3, 0), trace = [Fetch ''https://example.com'']\<rparr>)"
    by (simp add: model_eval)
  have k2: "call (Fetch ''http://example.org'') (fetch env_blocked ''http://example.org'')
       \<lparr>world = (1, 0), trace = []\<rparr> =
     (Response False, \<lparr>world = (2, 0), trace = [Fetch ''http://example.org'']\<rparr>)"
    by (simp add: model_eval)
  have k3: "read_clock env_blocked \<lparr>world = (2, 0), trace = [Fetch ''http://example.org'']\<rparr> =
     (1700000002000, \<lparr>world = (3, 0), trace = [Fetch ''http://example.org'']\<rparr>)"
    by (simp add: model_eval)
  have cert: "ssl_valid (fst (selectSslInfo env_blocked ''https://example.com''
       \<lparr>world = (3, 0), trace = [Fetch ''https://example.com'']\<rparr>))"
    by (simp add: model_eval)
  have secure: "startsWith ''https://example.com'' ''https://''"
    and plain: "\<not> startsWith ''http://example.org'' ''https://''"
    by (simp_all add: startsWith_def)
  have a: "ssl_valid (fst (checkWebsiteStatus env_blocked ''https://example.com'' start))"
    using C4_ssl_valid_on_response [OF h1 h2 h3] cert secure by blast
  have b: "\<not> ssl_valid (fst (checkWebsiteStatus env_blocked ''http://example.org'' start)) \<and>
      trace (snd (checkWebsiteStatus env_blocked ''http://example.org'' start)) =
        trace start @ [Fetch ''http://example.org'']"
    using C4_ssl_valid_on_response [OF h1 k2 k3] plain by blast
  have "trace start = []" by (simp add: start_def)
  with a b h1 h2 k2 cert plain show ?thesis by simp
qed

text \<open>
  Claim C5, as written: when neither strategy reports a valid certificate, the inspector
  returns \<open>valid = false\<close> together with the diagnostic dates the strategies produced.
  The code keeps a strategy's record only when that record is valid. For an expired
  certificate both strategies produce dates, and the inspector returns none of them.
\<close>

theorem C5_expired_dates_dropped:
  "ssl_expire_date (fst (getSSLCertificateInfo env_expired ''https://example.com'' start)) =
     Some ''day-19097'' \<and>
   ssl_days_remaining (fst (getSSLCertificateInfo env_expired ''https://example.com'' start)) =
     Some (- 579) \<and>
   \<not> ssl_valid (fst (getSSLCertificateInfo env_expired ''https://example.com'' start)) \<and>
   ssl_expire_date (fst (checkSSLWithChecker env_expired ''https://example.com''
       (snd (getSSLCertificateInfo env_expired ''https://example.com'' start)))) =
     Some ''2022-04-15T05:20:00.000Z'' \<and>
   ssl_expire_date (fst (selectSslInfo env_expired ''https://example.com'' start)) = None \<and>
   ssl_issued_date (fst (selectSslInfo env_expired ''https://example.com'' start)) = None \<and>
   ssl_days_remaining (fst (selectSslInfo env_expired ''https://example.com'' start)) = None \<and>
   ssl_expire_date (fst (checkWebsiteStatus env_expired ''https://example.com'' start)) = None"
  by (simp add: model_eval)

text \<open>
  Claim C5, amended: for an https URL the direct handshake strategy runs first. If its
  record is valid, that record is the inspector's answer and the checker is not called.
  Otherwise the checker is called next, and its record is the answer if it is valid. If
  neither record is valid the answer is \<^verbatim>\<open>{ssl_valid: false}\<close> with every date field
  and the days remaining absent, whatever the two strategies reported.
\<close>

theorem C5_strategy_fallback:
  assumes "startsWith url ''https://''"
    and "getSSLCertificateInfo env url s = (nativeSslInfo, s1)"
    and "checkSSLWithChecker env url s1 = (checkerSslInfo, s2)"
  shows "(ssl_valid nativeSslInfo \<longrightarrow>
            selectSslInfo env url s = (nativeSslInfo, s1) \<and>
            (\<exists>events. trace s1 = trace s @ events \<and> (\<forall>host. SslChecker host \<notin> set events))) \<and>
         (\<not> ssl_valid nativeSslInfo \<longrightarrow>
            (\<exists>host. trace (snd (selectSslInfo env url s)) = trace s1 @ [SslChecker host]) \<and>
            (ssl_valid checkerSslInfo \<longrightarrow> selectSslInfo env url s = (checkerSslInfo, s2)) \<and>
            (\<not> ssl_valid checkerSslInfo \<longrightarrow>
               selectSslInfo env url s =
                 (\<lparr>ssl_valid = False, ssl_renew_date = None, ssl_issued_date = None,
                   ssl_expire_date = None, ssl_expires = None, ssl_days_remaining = None\<rparr>,
                  s2)))"
proof -
  have sel: "selectSslInfo env url s =
           (if ssl_valid nativeSslInfo then (nativeSslInfo, s1)
            else if ssl_valid checkerSslInfo then (checkerSslInfo, s2)
            else (no_ssl, s2))"
    using assms by (simp add: selectSslInfo_def)
  have quiet: "\<exists>events. trace s1 = trace s @ events \<and> (\<forall>host. SslChecker host \<notin> set events)"
    using getSSLCertificateInfo_trace [OF assms(2)] by auto
  have asked: "\<exists>host. trace s2 = trace s1 @ [SslChecker host]"
    using assms(1,3)
    by (auto simp: checkSSLWithChecker_def Let_def call_def
        split: prod.splits checker_outcome.splits)
  show ?thesis
    using quiet asked by (auto simp: sel no_ssl_def)
qed

text \<open>
  With the expired certificate neither record is valid: the inspector answers the empty
  record after the handshake and then the checker were asked.
\<close>

theorem C5_strategy_fallback_witness:
  "startsWith ''https://example.com'' ''https://'' \<and>
   getSSLCertificateInfo env_expired ''https://example.com'' start =
     (\<lparr>ssl_valid = False, ssl_renew_date = Some ''day-18518'',
       ssl_issued_date = Some ''day-18518'', ssl_expire_date = Some ''day-19097'',
       ssl_expires = Some ''day-19097'', ssl_days_remaining = Some (- 579)\<rparr>,
      \<lparr>world = (2, 0), trace = [TlsConnect 443 ''example.com'']\<rparr>) \<and>
   checkSSLWithChecker env_expired ''https://example.com''
       \<lparr>world = (2, 0), trace = [TlsConnect 443 ''example.com'']\<rparr> =
     (\<lparr>ssl_valid = False, ssl_renew_date = Some ''2020-09-13T12:26:40.000Z'',
       ssl_issued_date = Some ''2020-09-13T12:26:40.000Z'',
       ssl_expire_date = Some ''2022-04-15T05:20:00.000Z'',
       ssl_expires = Some ''2022-04-15T05:20:00.000Z'', ssl_days_remaining = Some (- 579)\<rparr>,
      \<lparr>world = (3, 0), trace = [TlsConnect 443 ''example.com'', SslChecker ''example.com'']\<rparr>) \<and>
   selectSslInfo env_expired ''https://example.com'' start =
     (\<lparr>ssl_valid = False, ssl_renew_date = None, ssl_issued_date = None,
       ssl_expire_date = None, ssl_expires = None, ssl_days_remaining = None\<rparr>,
      \<lparr>world = (3, 0), trace = [TlsConnect 443 ''example.com'', SslChecker ''example.com'']\<rparr>)"
proof -
  have h1: "startsWith ''https://example.com'' ''https://''"
    by (simp add: startsWith_def)
  have h2: "getSSLCertificateInfo env_expired ''https://example.com'' start =
     (\<lparr>ssl_valid = False, ssl_renew_date = Some ''day-18518'',
       ssl_issued_date = Some ''day-18518'', ssl_expire_date = Some ''day-19097'',
       ssl_expires = Some ''day-19097'', ssl_days_remaining = Some (- 579)\<rparr>,
      \<lparr>world = (2, 0), trace = [TlsConnect 443 ''example.com'']\<rparr>)"
    by (simp add: model_eval)
  have h3: "checkSSLWithChecker env_expired ''https://example.com''
       \<lparr>world = (2, 0), trace = [TlsConnect 443 ''example.com'']\<rparr> =
     (\<lparr>ssl_valid = False, ssl_renew_date = Some ''2020-09-13T12:26:40.000Z'',
       ssl_issued_date = Some ''2020-09-13T12:26:40.000Z'',
       ssl_expire_date = Some ''2022-04-15T05:20:00.000Z'',
       ssl_expires = Some ''2022-04-15T05:20:00.000Z'', ssl_days_remaining = Some (- 579)\<rparr>,
      \<lparr>world = (3, 0), trace = [TlsConnect 443 ''example.com'', SslChecker ''example.com'']\<rparr>)"
    by (simp add: model_eval)
  from C5_strategy_fallback [OF h1 h2 h3]
  have "selectSslInfo env_expired ''https://example.com'' start =
     (\<lparr>ssl_valid = False, ssl_renew_date = None, ssl_issued_date = None,
       ssl_expire_date = None, ssl_expires = None, ssl_days_remaining = None\<rparr>,
      \<lparr>world = (3, 0), trace = [TlsConnect 443 ''example.com'', SslChecker ''example.com'']\<rparr>)"
    by simp
  with h1 h2 h3 show ?thesis by simp
qed

lemma error_message_of_cases:
  "length (error_message_of error) \<le> 100 \<and>
   (err_name error = ''AbortError'' \<longrightarrow> error_message_of error = ''Request timeout'') \<and>
   (err_name error \<noteq> ''AbortError'' \<longrightarrow>
      (case err_message error of
         None \<Rightarrow> error_message_of error = ''Connection failed''
       | Some m \<Rightarrow>
           error_message_of error = (if m = [] then ''Connection failed'' else take 100 m)))"
  by (simp add: error_message_of_def truthy_def split: option.splits)

text \<open>
  Claim C7: when the fetch throws, the probe result has status \<open>Error\<close> and an error
  message of at most 100 characters: \<^verbatim>\<open>Request timeout\<close> when the error's name is
  \<^verbatim>\<open>AbortError\<close>; otherwise the first 100 characters of the error's message, or
  \<^verbatim>\<open>Connection failed\<close> when the error carries no message. The certificate inspector
  still runs, in the state the second clock read leaves: the result takes its validity,
  dates and days remaining from the inspector, the inspector's external calls are in the
  final state, and for an https URL a valid record of the direct handshake is the record
  the result carries.
\<close>

theorem C7_probe_error_path:
  assumes "read_clock env s = (startTime, s0)"
    and "call (Fetch url) (fetch env url) s0 = (FetchThrows error, s1)"
    and "read_clock env s1 = (t, s2)"
  shows "status (fst (checkWebsiteStatus env url s)) = Error \<and>
         (\<exists>msg. error_message (fst (checkWebsiteStatus env url s)) = Some msg \<and>
            length msg \<le> 100 \<and>
            (err_name error = ''AbortError'' \<longrightarrow> msg = ''Request timeout'') \<and>
            (err_name error \<noteq> ''AbortError'' \<longrightarrow>
               (case err_message error of
                  None \<Rightarrow> msg = ''Connection failed''
                | Some m \<Rightarrow> msg = (if m = [] then ''Connection failed'' else take 100 m)))) \<and>
         ssl_valid (fst (checkWebsiteStatus env url s)) =
           ssl_valid (fst (selectSslInfo env url s2)) \<and>
         ssl_expire_date (fst (checkWebsiteStatus env url s)) =
           ssl_expire_date (fst (selectSslInfo env url s2)) \<and>
         ssl_renew_date (fst (checkWebsiteStatus env url s)) =
           ssl_renew_date (fst (selectSslInfo env url s2)) \<and>
         ssl_days_remaining (fst (checkWebsiteStatus env url s)) =
           ssl_days_remaining (fst (selectSslInfo env url s2)) \<and>
         snd (checkWebsiteStatus env url s) = snd (selectSslInfo env url s2) \<and>
         (startsWith url ''https://'' \<longrightarrow>
            ssl_valid (fst (getSSLCertificateInfo env url s2)) \<longrightarrow>
            selectSslInfo env url s2 = getSSLCertificateInfo env url s2)"
proof -
  obtain sslInfo s3 where sel: "selectSslInfo env url s2 = (sslInfo, s3)"
    by (cases "selectSslInfo env url s2")
  note res = checkWebsiteStatus_throws [OF assms sel]
  have native: "selectSslInfo env url s2 = getSSLCertificateInfo env url s2"
    if "startsWith url ''https://''" "ssl_valid (fst (getSSLCertificateInfo env url s2))"
    using that by (cases "getSSLCertificateInfo env url s2") (simp add: selectSslInfo_def)
  show ?thesis
    using error_message_of_cases [of error] native by (simp add: res sel)
qed

text \<open>
  The fetch of an https site is aborted by its timeout while the certificate is good: the
  message is \<^verbatim>\<open>Request timeout\<close>, and the result is valid with ten days remaining, read
  by a handshake made after the failed fetch.
\<close>

theorem C7_probe_error_path_witness:
  "read_clock env_slow start = (1700000000000, \<lparr>world = (1, 0), trace = []\<rparr>) \<and>
   call (Fetch ''https://example.com'') (fetch env_slow ''https://example.com'')
       \<lparr>world = (1, 0), trace = []\<rparr> =
     (FetchThrows abort_error, \<lparr>world = (2, 0), trace = [Fetch ''https://example.com'']\<rparr>) \<and>
   read_clock env_slow \<lparr>world = (2, 0), trace = [Fetch ''https://example.com'']\<rparr> =
     (1700000002000, \<lparr>world = (3, 0), trace = [Fetch ''https://example.com'']\<rparr>) \<and>
   status (fst (checkWebsiteStatus env_slow ''https://example.com'' start)) = Error \<and>
   error_message (fst (checkWebsiteStatus env_slow ''https://example.com'' start)) =
     Some ''Request timeout'' \<and>
   ssl_valid (fst (checkWebsiteStatus env_slow ''https://example.com'' start)) \<and>
   ssl_days_remaining (fst (checkWebsiteStatus env_slow ''https://example.com'' start)) = Some 10 \<and>
   trace (snd (checkWebsiteStatus env_slow ''https://example.com'' start)) =
     [Fetch ''https://example.com'', TlsConnect 443 ''example.com'']"
proof -
  have h1: "read_clock env_slow start = (1700000000000, \<lparr>world = (1, 0), trace = []\<rparr>)"
    by (simp add: model_eval)
  have h2: "call (Fetch ''https://example.com'') (fetch env_slow ''https://example.com'')
       \<lparr>world = (1, 0), trace = []\<rparr> =
     (FetchThrows abort_error, \<lparr>world = (2, 0), trace = [Fetch ''https://example.com'']\<rparr>)"
    by (simp add: model_eval)
  have h3: "read_clock env_slow \<lparr>world = (2, 0), trace = [Fetch ''https://example.com'']\<rparr> =
     (1700000002000, \<lparr>world = (3, 0), trace = [Fetch ''https://example.com'']\<rparr>)"
    by (simp add: model_eval)
  have inspector: "selectSslInfo env_slow ''https://example.com''
       \<lparr>world = (3, 0), trace = [Fetch ''https://example.com'']\<rparr> =
     (\<lparr>ssl_valid = True, ssl_renew_date = Some ''day-19664'',
       ssl_issued_date = Some ''day-19664'', ssl_expire_date = Some ''day-19685'',
       ssl_expires = Some ''day-19685'', ssl_days_remaining = Some 10\<rparr>,
      \<lparr>world = (5, 0), trace = [Fetch ''https://example.com'', TlsConnect 443 ''example.com'']\<rparr>)"
    by (simp add: model_eval)
  have name: "err_name abort_error = ''AbortError''"
    by (simp add: abort_error_def)
  from C7_probe_error_path [OF h1 h2 h3] name
  have "status (fst (checkWebsiteStatus env_slow ''https://example.com'' start)) = Error \<and>
   error_message (fst (checkWebsiteStatus env_slow ''https://example.com'' start)) =
     Some ''Request timeout'' \<and>
   ssl_valid (fst (checkWebsiteStatus env_slow ''https://example.com'' start)) \<and>
   ssl_days_remaining (fst (checkWebsiteStatus env_slow ''https://example.com'' start)) = Some 10 \<and>
   trace (snd (checkWebsiteStatus env_slow ''https://example.com'' start)) =
     [Fetch ''https://example.com'', TlsConnect 443 ''example.com'']"
    by (auto simp: inspector)
  with h1 h2 h3 show ?thesis by simp
qed

subsection \<open>Screenshot capturer\<close>

lemma launches_emit: "e \<noteq> BrowserLaunch \<Longrightarrow> launches (emit e s) = launches s"
  by (simp add: launches_def emit_def)

lemma launches_close_browser: "launches (close_browser b s) = launches s"
  by (simp add: close_browser_def launches_emit)

lemma launches_read_clock: "read_clock env s = (t, s') \<Longrightarrow> launches s' = launches s"
  by (simp add: launches_def read_clock_trace)

lemma launches_call: "call e f s = (r, s') \<Longrightarrow> e \<noteq> BrowserLaunch \<Longrightarrow> launches s' = launches s"
  by (simp add: launches_def call_trace)

lemma launches_getSSLCertificateInfo:
  "getSSLCertificateInfo env url s = (r, s') \<Longrightarrow> launches s' = launches s"
  using getSSLCertificateInfo_trace [of env url s r s'] by (auto simp: launches_def)

lemma launches_checkSSLWithChecker:
  "checkSSLWithChecker env url s = (r, s') \<Longrightarrow> launches s' = launches s"
  by (auto simp: checkSSLWithChecker_def Let_def call_def launches_def
      split: if_splits prod.splits checker_outcome.splits)

lemma launches_selectSslInfo:
  "selectSslInfo env url s = (r, s') \<Longrightarrow> launches s' = launches s"
  by (auto simp: selectSslInfo_def launches_getSSLCertificateInfo launches_checkSSLWithChecker
      split: if_splits prod.splits)

lemma launches_checkWebsiteStatus:
  "checkWebsiteStatus env url s = (r, s') \<Longrightarrow> launches s' = launches s"
proof -
  assume run: "checkWebsiteStatus env url s = (r, s')"
  obtain startTime s0 where a: "read_clock env s = (startTime, s0)"
    by (cases "read_clock env s")
  obtain outcome s1 where b: "call (Fetch url) (fetch env url) s0 = (outcome, s1)"
    by (cases "call (Fetch url) (fetch env url) s0")
  obtain t s2 where c: "read_clock env s1 = (t, s2)"
    by (cases "read_clock env s1")
  obtain sslInfo s3 where d: "selectSslInfo env url s2 = (sslInfo, s3)"
    by (cases "selectSslInfo env url s2")
  have "s' = s3"
    using run a b c d by (cases outcome) (simp_all add: checkWebsiteStatus_def)
  then show ?thesis
    using launches_read_clock [OF a] launches_call [OF b] launches_read_clock [OF c]
      launches_selectSslInfo [OF d] by simp
qed

lemma count_list_take_drop:
  "count_list (take k xs) y + count_list (drop k xs) y = count_list xs y"
proof -
  have "count_list (take k xs @ drop k xs) y = count_list xs y"
    by (simp only: append_take_drop_id)
  then show ?thesis by (simp only: count_list_append)
qed

lemma launches_close_after_retry_launch: "launches (close_after_retry_launch b n s) = launches s"
  by (simp add: close_after_retry_launch_def launches_def count_list_take_drop)

lemma backoffs_close_browser: "backoffs (close_browser b s) = backoffs s"
  by (simp add: close_browser_def backoffs_def emit_def)

lemma backoffs_close_after_retry_launch: "backoffs (close_after_retry_launch b n s) = backoffs s"
  by (simp add: close_after_retry_launch_def backoffs_def count_list_take_drop)

lemma backoffs_sleep: "backoffs (emit (Sleep 2000) s) = Suc (backoffs s)"
  by (simp add: backoffs_def emit_def)

lemma screenshot_attempt_launches:
  "screenshot_attempt env url ident special s = (r, b, s1) \<Longrightarrow> launches s1 = Suc (launches s)"
  by (auto simp: screenshot_attempt_def call_def read_clock_def launches_def Let_def
      split: prod.splits open_outcome.splits option.splits)

lemma screenshot_attempt_backoffs:
  "screenshot_attempt env url ident special s = (r, b, s1) \<Longrightarrow> backoffs s1 = backoffs s"
  by (auto simp: screenshot_attempt_def call_def read_clock_def backoffs_def Let_def
      split: prod.splits open_outcome.splits option.splits)

lemma screenshot_attempt_path:
  "screenshot_attempt env url ident special s = (Inr path, b, s1) \<Longrightarrow>
     startsWith path ''/screenshots/''"
  by (auto simp: screenshot_attempt_def call_def read_clock_def Let_def startsWith_def
      split: prod.splits open_outcome.splits option.splits)

lemma takeScreenshot_success:
  "screenshot_attempt env url ident (needsSpecialHandling url) s = (Inr path, b, s1) \<Longrightarrow>
     takeScreenshot env url ident retryCount s = (Some path, close_browser b s1)"
  by (subst takeScreenshot.simps) simp

lemma takeScreenshot_give_up:
  "screenshot_attempt env url ident (needsSpecialHandling url) s = (Inl error, b, s1) \<Longrightarrow>
     \<not> (retryCount < 1 \<and> timeout_or_navigation error) \<Longrightarrow>
     takeScreenshot env url ident retryCount s = (None, close_browser b s1)"
  by (subst takeScreenshot.simps) auto

lemma takeScreenshot_retry:
  "screenshot_attempt env url ident (needsSpecialHandling url) s = (Inl error, b, s1) \<Longrightarrow>
     retryCount < 1 \<Longrightarrow> timeout_or_navigation error \<Longrightarrow>
     takeScreenshot env url ident retryCount s =
       (case takeScreenshot env url ident (retryCount + 1)
               (emit (Sleep 2000) (close_browser b s1)) of
          (r, s2) \<Rightarrow>
            (r, close_after_retry_launch b
                  (length (trace (emit (Sleep 2000) (close_browser b s1)))) s2))"
  by (subst takeScreenshot.simps) simp

text \<open>
  Every call launches a browser at least once and at most once more than the retries the
  guard \<^verbatim>\<open>retryCount < 1\<close> still allows. The induction follows the recursion of
  \<^verbatim>\<open>takeScreenshot\<close>.
\<close>

lemma takeScreenshot_launches:
  "takeScreenshot env url ident retryCount s = (r, s') \<Longrightarrow>
     Suc (launches s) \<le> launches s' \<and> launches s' \<le> Suc (launches s) + nat (1 - retryCount)"
proof (induction env url ident retryCount s arbitrary: r s' rule: takeScreenshot.induct)
  case (1 env url ident retryCount s)
  obtain a b s1 where att: "screenshot_attempt env url ident (needsSpecialHandling url) s = (a, b, s1)"
    by (cases "screenshot_attempt env url ident (needsSpecialHandling url) s") auto
  note l1 = screenshot_attempt_launches [OF att]
  show ?case
  proof (cases a)
    case (Inr path)
    with att "1.prems" l1 show ?thesis
      by (auto simp: takeScreenshot_success launches_close_browser)
  next
    case (Inl error)
    show ?thesis
    proof (cases "retryCount < 1 \<and> timeout_or_navigation error")
      case False
      with att Inl "1.prems" l1 show ?thesis
        by (auto simp: takeScreenshot_give_up launches_close_browser)
    next
      case True
      obtain r2 s2 where rec: "takeScreenshot env url ident (retryCount + 1)
               (emit (Sleep 2000) (close_browser b s1)) = (r2, s2)"
        by (cases "takeScreenshot env url ident (retryCount + 1)
               (emit (Sleep 2000) (close_browser b s1))")
      have ih: "Suc (launches (emit (Sleep 2000) (close_browser b s1))) \<le> launches s2 \<and>
          launches s2 \<le>
            Suc (launches (emit (Sleep 2000) (close_browser b s1))) + nat (1 - (retryCount + 1))"
        using "1.IH" [OF att [symmetric] _ _ True rec] Inl by simp
      have "launches s' = launches s2"
        using "1.prems" att Inl True rec
        by (auto simp: takeScreenshot_retry launches_close_after_retry_launch)
      moreover have "nat (1 - retryCount) = Suc (nat (1 - (retryCount + 1)))"
        using True by arith
      ultimately show ?thesis
        using ih l1 by (simp add: launches_close_browser launches_emit)
    qed
  qed
qed

lemma takeScreenshot_path:
  "takeScreenshot env url ident retryCount s = (Some path, s') \<Longrightarrow>
     startsWith path ''/screenshots/''"
proof (induction env url ident retryCount s arbitrary: s' rule: takeScreenshot.induct)
  case (1 env url ident retryCount s)
  obtain a b s1 where att: "screenshot_attempt env url ident (needsSpecialHandling url) s = (a, b, s1)"
    by (cases "screenshot_attempt env url ident (needsSpecialHandling url) s") auto
  show ?case
  proof (cases a)
    case (Inr p)
    with att "1.prems" screenshot_attempt_path [of env url ident "needsSpecialHandling url" s p b s1]
    show ?thesis by (simp add: takeScreenshot_success)
  next
    case (Inl error)
    show ?thesis
    proof (cases "retryCount < 1 \<and> timeout_or_navigation error")
      case False
      with att Inl "1.prems" show ?thesis by (simp add: takeScreenshot_give_up)
    next
      case True
      obtain r2 s2 where rec: "takeScreenshot env url ident (retryCount + 1)
               (emit (Sleep 2000) (close_browser b s1)) = (r2, s2)"
        by (cases "takeScreenshot env url ident (retryCount + 1)
               (emit (Sleep 2000) (close_browser b s1))")
      have "r2 = Some path"
        using "1.prems" att Inl True rec by (simp add: takeScreenshot_retry)
      with "1.IH" [OF att [symmetric] _ _ True] Inl rec show ?thesis by simp
    qed
  qed
qed

lemma takeScreenshot_truthy:
  "takeScreenshot env url ident retryCount s = (shot, s') \<Longrightarrow>
     js_or shot None = shot \<and> truthy shot = (shot \<noteq> None)"
  using takeScreenshot_path [of env url ident retryCount s _ s']
  by (cases shot) (auto simp: js_or_def truthy_def startsWith_def)

text \<open>
  The order of events when the first navigation fails and the retry succeeds: the first
  browser is closed, the back-off passes, the retry launches, the finally block closes the
  first browser again, and only then the retry takes its screenshot and closes its own
  browser.
\<close>

lemma takeScreenshot_retry_event_order:
  "takeScreenshot env_slow ''https://example.com'' 1 0 start =
     (Some ''/screenshots/1_1700000002000.png'',
      \<lparr>world = (4, 2),
       trace = [BrowserLaunch, BrowserClose, Sleep 2000, BrowserLaunch, BrowserClose,
                PageScreenshot ''/app/public/screenshots/1_1700000002000.png'',
                BrowserClose]\<rparr>)"
  by (simp add: model_eval)

text \<open>
  What holds of the retry for every environment: the call launches at most twice from any
  attempt count from 0 up; a failed attempt that does not pass the guard
  \<^verbatim>\<open>retryCount < 1\<close> and the message test ends the call with null after that single
  launch; two failures from attempt count 0, the first passing the message test, give null
  after exactly two launches and one back-off; and processing one website launches the
  browser once or twice.
\<close>

lemma takeScreenshot_bounded:
  assumes run: "takeScreenshot env url ident retryCount s = (r, s')"
  shows "Suc (launches s) \<le> launches s' \<and>
         launches s' \<le> Suc (launches s) + nat (1 - retryCount) \<and>
         (0 \<le> retryCount \<longrightarrow> launches s' \<le> launches s + 2) \<and>
         (\<forall>error b s1.
            screenshot_attempt env url ident (needsSpecialHandling url) s = (Inl error, b, s1) \<longrightarrow>
            \<not> (retryCount < 1 \<and> timeout_or_navigation error) \<longrightarrow>
            r = None \<and> launches s' = Suc (launches s) \<and> backoffs s' = backoffs s) \<and>
         (\<forall>error b s1 error2 b2 s2.
            retryCount = 0 \<longrightarrow>
            screenshot_attempt env url ident (needsSpecialHandling url) s = (Inl error, b, s1) \<longrightarrow>
            timeout_or_navigation error \<longrightarrow>
            screenshot_attempt env url ident (needsSpecialHandling url)
              (emit (Sleep 2000) (close_browser b s1)) = (Inl error2, b2, s2) \<longrightarrow>
            r = None \<and> launches s' = launches s + 2 \<and> backoffs s' = Suc (backoffs s)) \<and>
         (\<forall>website s0.
            Suc (launches s0) \<le> launches (snd (processWebsite env website s0)) \<and>
            launches (snd (processWebsite env website s0)) \<le> launches s0 + 2)"
proof -
  note bound = takeScreenshot_launches [OF run]
  have site: "Suc (launches s0) \<le> launches (snd (processWebsite env website s0)) \<and>
            launches (snd (processWebsite env website s0)) \<le> launches s0 + 2"
    for website s0
  proof -
    obtain statusCheck sa where
      probe: "checkWebsiteStatus env (w_url website) s0 = (statusCheck, sa)"
      by (cases "checkWebsiteStatus env (w_url website) s0")
    obtain shot sb where
      capture: "takeScreenshot env (w_url website) (w_id website) 0 sa = (shot, sb)"
      by (cases "takeScreenshot env (w_url website) (w_id website) 0 sa")
    have "snd (processWebsite env website s0) = sb"
      by (simp add: processWebsite_def probe capture Let_def)
    then show ?thesis
      using takeScreenshot_launches [OF capture] launches_checkWebsiteStatus [OF probe]
      by simp
  qed
  have nonneg: "launches s' \<le> launches s + 2" if "0 \<le> retryCount"
  proof -
    have "nat (1 - retryCount) \<le> 1" using that by simp
    with bound show ?thesis by simp
  qed
  have one: "r = None \<and> launches s' = Suc (launches s) \<and> backoffs s' = backoffs s"
    if att: "screenshot_attempt env url ident (needsSpecialHandling url) s = (Inl error, b, s1)"
      and stop: "\<not> (retryCount < 1 \<and> timeout_or_navigation error)"
    for error b s1
    using run screenshot_attempt_launches [OF att] screenshot_attempt_backoffs [OF att]
    by (auto simp: takeScreenshot_give_up [OF att stop] launches_close_browser
        backoffs_close_browser)
  have two: "r = None \<and> launches s' = launches s + 2 \<and> backoffs s' = Suc (backoffs s)"
    if zero: "retryCount = 0"
      and att: "screenshot_attempt env url ident (needsSpecialHandling url) s = (Inl error, b, s1)"
      and retry: "timeout_or_navigation error"
      and att2: "screenshot_attempt env url ident (needsSpecialHandling url)
              (emit (Sleep 2000) (close_browser b s1)) = (Inl error2, b2, s2)"
    for error b s1 error2 b2 s2
  proof -
    have stop: "\<not> ((0::int) + 1 < 1 \<and> timeout_or_navigation error2)"
      by simp
    have second: "takeScreenshot env url ident (0 + 1) (emit (Sleep 2000) (close_browser b s1)) =
        (None, close_browser b2 s2)"
      using att2 stop by (rule takeScreenshot_give_up)
    have "(r, s') =
        (None, close_after_retry_launch b
                 (length (trace (emit (Sleep 2000) (close_browser b s1))))
                 (close_browser b2 s2))"
      using run zero takeScreenshot_retry [OF att _ retry, of 0] second by simp
    then show ?thesis
      using screenshot_attempt_launches [OF att] screenshot_attempt_launches [OF att2]
        screenshot_attempt_backoffs [OF att] screenshot_attempt_backoffs [OF att2]
      by (simp add: launches_close_browser launches_emit backoffs_close_browser backoffs_sleep
          launches_close_after_retry_launch backoffs_close_after_retry_launch)
  qed
  show ?thesis
    using bound nonneg one two site by blast
qed

text \<open>
  Claim C9: on a navigation or timeout error at attempt count 0 the capture retries once
  after the back-off, so that two consecutive navigation timeouts give two browser
  launches; the source's own comment reads \<^verbatim>\<open>Retry logic for timeout errors (max 1 retry)\<close>.
  The code decides by looking in the error's message for \<^verbatim>\<open>timeout\<close>, in lower case, or
  for \<^verbatim>\<open>Navigation\<close>. The error Playwright raises when \<^verbatim>\<open>page.goto\<close> exceeds its timeout
  is a \<^verbatim>\<open>TimeoutError\<close> with the message \<^verbatim>\<open>page.goto: Timeout 45000ms exceeded.\<close>, which
  holds \<^verbatim>\<open>Timeout\<close> with a capital and neither of the two substrings. At that error the
  code does not retry: the call returns null after a single launch and no back-off, where
  the claim has a retry and a second launch. With the message
  \<^verbatim>\<open>Navigation timeout of 45000 ms exceeded\<close> in its place the same call does retry and
  launches twice.
\<close>

theorem C9_goto_timeout_not_retried:
  "err_name playwright_timeout = ''TimeoutError'' \<and>
   includes_str (the (err_message playwright_timeout)) ''Timeout'' \<and>
   \<not> includes_str (the (err_message playwright_timeout)) ''timeout'' \<and>
   \<not> includes_str (the (err_message playwright_timeout)) ''Navigation'' \<and>
   \<not> timeout_or_navigation playwright_timeout \<and>
   screenshot_attempt env_goto_timeout ''https://example.com'' 1
       (needsSpecialHandling ''https://example.com'') start =
     (Inl playwright_timeout, True, \<lparr>world = (1, 1), trace = [BrowserLaunch]\<rparr>) \<and>
   takeScreenshot env_goto_timeout ''https://example.com'' 1 0 start =
     (None, \<lparr>world = (1, 1), trace = [BrowserLaunch, BrowserClose]\<rparr>) \<and>
   launches (snd (takeScreenshot env_goto_timeout ''https://example.com'' 1 0 start)) = 1 \<and>
   backoffs (snd (takeScreenshot env_goto_timeout ''https://example.com'' 1 0 start)) = 0 \<and>
   timeout_or_navigation navigation_timeout \<and>
   takeScreenshot env_unreachable ''https://example.com'' 1 0 start =
     (None, \<lparr>world = (2, 2),
             trace = [BrowserLaunch, BrowserClose, Sleep 2000, BrowserLaunch, BrowserClose,
                      BrowserClose]\<rparr>) \<and>
   launches (snd (takeScreenshot env_unreachable ''https://example.com'' 1 0 start)) = 2"
  by (simp add: model_eval)

subsection \<open>Pipeline orchestrator\<close>

lemma processWebsite_result:
  assumes probe: "checkWebsiteStatus env (w_url website) s = (statusCheck, s1)"
    and capture: "takeScreenshot env (w_url website) (w_id website) 0 s1 = (shot, s2)"
  shows "processWebsite env website s =
     (\<lparr>ssl_valid =
         (if shot \<noteq> None \<and> status statusCheck \<noteq> Up \<and> startsWith (w_url website) ''https://''
          then True else ssl_valid statusCheck),
       ssl_renew_date = ssl_renew_date statusCheck,
       ssl_issued_date = ssl_issued_date statusCheck,
       ssl_expire_date = ssl_expire_date statusCheck,
       ssl_expires = ssl_expires statusCheck,
       ssl_days_remaining = ssl_days_remaining statusCheck,
       status = (if shot \<noteq> None \<and> status statusCheck \<noteq> Up then Up else status statusCheck),
       response_time = response_time statusCheck,
       error_message = (if shot \<noteq> None then None else error_message statusCheck),
       r_id = w_id website,
       r_url = w_url website,
       screenshot_path = shot\<rparr>, s2)"
  using takeScreenshot_truthy [OF capture]
  by (simp add: processWebsite_def probe capture Let_def)

lemma processWebsite_invariant:
  assumes "processWebsite env website s = (r, s')"
  shows "r_id r = w_id website \<and> r_url r = w_url website \<and>
         (screenshot_path r \<noteq> None \<longrightarrow> status r = Up \<and> error_message r = None) \<and>
         response_time r = response_time (fst (checkWebsiteStatus env (w_url website) s))"
proof -
  obtain statusCheck s1 where probe: "checkWebsiteStatus env (w_url website) s = (statusCheck, s1)"
    by (cases "checkWebsiteStatus env (w_url website) s")
  obtain shot s2 where capture: "takeScreenshot env (w_url website) (w_id website) 0 s1 = (shot, s2)"
    by (cases "takeScreenshot env (w_url website) (w_id website) 0 s1")
  show ?thesis
    using assms unfolding processWebsite_result [OF probe capture]
    by (auto simp: probe)
qed

text \<open>
  The loop appends one result per website, in order, and every result it appends is the
  result of the loop body on that website in some state.
\<close>

lemma process_loop_results:
  "process_loop env websites acc s = (results, s') \<Longrightarrow>
     \<exists>new. results = acc @ new \<and>
       map (\<lambda>r. (r_id r, r_url r)) new = map (\<lambda>w. (w_id w, w_url w)) websites \<and>
       (\<forall>r \<in> set new. \<exists>website s0 s1. processWebsite env website s0 = (r, s1))"
proof (induction websites arbitrary: acc s)
  case Nil
  then show ?case by simp
next
  case (Cons website rest)
  obtain result s1 where step: "processWebsite env website s = (result, s1)"
    by (cases "processWebsite env website s")
  with Cons.prems have "process_loop env rest (acc @ [result]) s1 = (results, s')"
    by simp
  from Cons.IH [OF this] obtain new where
    new: "results = (acc @ [result]) @ new"
      "map (\<lambda>r. (r_id r, r_url r)) new = map (\<lambda>w. (w_id w, w_url w)) rest"
      "\<forall>r \<in> set new. \<exists>website s0 s1. processWebsite env website s0 = (r, s1)"
    by blast
  have "r_id result = w_id website \<and> r_url result = w_url website"
    using processWebsite_invariant [OF step] by simp
  with new step show ?case
    by (intro exI [of _ "result # new"]) auto
qed

lemma POST_results:
  assumes "POST env request s = (ResultsResponse results, s')"
  shows "\<exists>websites. request = Body (JsArray websites) \<and> websites \<noteq> [] \<and>
     process_loop env websites [] s = (results, s')"
proof (cases request)
  case (Body v)
  with assms show ?thesis
    by (cases v) (auto simp: POST_def split: if_splits prod.splits)
qed (use assms in \<open>simp_all add: POST_def\<close>)

lemma POST_result_is_processed:
  assumes "POST env request s = (ResultsResponse results, s')" and "r \<in> set results"
  shows "\<exists>website s0 s1. processWebsite env website s0 = (r, s1)"
proof -
  from POST_results [OF assms(1)] obtain websites where
    "process_loop env websites [] s = (results, s')" by blast
  from process_loop_results [OF this] assms(2) show ?thesis by auto
qed

text \<open>
  Claim C1: for a site whose probe gave \<open>statusCheck\<close> and whose capture gave \<open>shot\<close>,
  the final result carries \<open>shot\<close> as its screenshot path. If a path was produced and
  the probe's status was not \<open>Up\<close>, the final status is \<open>Up\<close>, and \<open>ssl_valid\<close> is
  true when the URL starts with \<^verbatim>\<open>https://\<close>; in every other case status and
  \<open>ssl_valid\<close> are the probe's. The error message is the probe's when there is no
  screenshot and absent when there is one. So in every response of the route, a result
  with a screenshot path has status \<open>Up\<close> and no error message.
\<close>

theorem C1_capture_overrides_probe:
  assumes probe: "checkWebsiteStatus env (w_url website) s = (statusCheck, s1)"
    and capture: "takeScreenshot env (w_url website) (w_id website) 0 s1 = (shot, s2)"
  shows "(\<exists>r. processWebsite env website s = (r, s2) \<and>
            screenshot_path r = shot \<and>
            (shot \<noteq> None \<and> status statusCheck \<noteq> Up \<longrightarrow>
               status r = Up \<and> (startsWith (w_url website) ''https://'' \<longrightarrow> ssl_valid r)) \<and>
            (shot = None \<or> status statusCheck = Up \<longrightarrow>
               status r = status statusCheck \<and> ssl_valid r = ssl_valid statusCheck) \<and>
            (screenshot_path r \<noteq> None \<longrightarrow> status r = Up) \<and>
            error_message r = (if shot = None then error_message statusCheck else None)) \<and>
         (\<forall>request s0 results s'.
            POST env request s0 = (ResultsResponse results, s') \<longrightarrow>
            (\<forall>r \<in> set results.
               screenshot_path r \<noteq> None \<longrightarrow> status r = Up \<and> error_message r = None))"
proof
  show "\<exists>r. processWebsite env website s = (r, s2) \<and>
            screenshot_path r = shot \<and>
            (shot \<noteq> None \<and> status statusCheck \<noteq> Up \<longrightarrow>
               status r = Up \<and> (startsWith (w_url website) ''https://'' \<longrightarrow> ssl_valid r)) \<and>
            (shot = None \<or> status statusCheck = Up \<longrightarrow>
               status r = status statusCheck \<and> ssl_valid r = ssl_valid statusCheck) \<and>
            (screenshot_path r \<noteq> None \<longrightarrow> status r = Up) \<and>
            error_message r = (if shot = None then error_message statusCheck else None)"
    unfolding processWebsite_result [OF probe capture] by auto
  show "\<forall>request s0 results s'.
            POST env request s0 = (ResultsResponse results, s') \<longrightarrow>
            (\<forall>r \<in> set results.
               screenshot_path r \<noteq> None \<longrightarrow> status r = Up \<and> error_message r = None)"
  proof (intro allI impI ballI)
    fix request s0 results s' r
    assume "POST env request s0 = (ResultsResponse results, s')" and "r \<in> set results"
      and shot: "screenshot_path r \<noteq> None"
    from POST_result_is_processed [OF this(1,2)]
    obtain w sa sb where "processWebsite env w sa = (r, sb)" by blast
    from processWebsite_invariant [OF this] shot
    show "status r = Up \<and> error_message r = None" by simp
  qed
qed

text \<open>
  Behind the bot wall the probe of the https site says \<open>Down\<close> with no valid certificate,
  and the page renders: the final result is \<open>Up\<close> with \<open>ssl_valid\<close> true and no error
  message.
\<close>

theorem C1_capture_overrides_probe_witness:
  "checkWebsiteStatus env_walled (w_url secure_site) start =
     (\<lparr>ssl_valid = False, ssl_renew_date = None, ssl_issued_date = None,
       ssl_expire_date = None, ssl_expires = None, ssl_days_remaining = None,
       status = Down, response_time = Some 2000, error_message = None\<rparr>,
      \<lparr>world = (5, 0),
       trace = [Fetch ''https://example.com'', TlsConnect 443 ''example.com'',
                SslChecker ''example.com'']\<rparr>) \<and>
   takeScreenshot env_walled (w_url secure_site) (w_id secure_site) 0
       \<lparr>world = (5, 0),
        trace = [Fetch ''https://example.com'', TlsConnect 443 ''example.com'',
                 SslChecker ''example.com'']\<rparr> =
     (Some ''/screenshots/1_1700000006000.png'',
      \<lparr>world = (8, 1),
       trace = [Fetch ''https://example.com'', TlsConnect 443 ''example.com'',
                SslChecker ''example.com'', BrowserLaunch,
                PageScreenshot ''/app/public/screenshots/1_1700000006000.png'',
                BrowserClose]\<rparr>) \<and>
   startsWith (w_url secure_site) ''https://'' \<and>
   status (fst (processWebsite env_walled secure_site start)) = Up \<and>
   ssl_valid (fst (processWebsite env_walled secure_site start)) \<and>
   error_message (fst (processWebsite env_walled secure_site start)) = None \<and>
   screenshot_path (fst (processWebsite env_walled secure_site start)) =
     Some ''/screenshots/1_1700000006000.png''"
proof -
  have probe: "checkWebsiteStatus env_walled (w_url secure_site) start =
     (\<lparr>ssl_valid = False, ssl_renew_date = None, ssl_issued_date = None,
       ssl_expire_date = None, ssl_expires = None, ssl_days_remaining = None,
       status = Down, response_time = Some 2000, error_message = None\<rparr>,
      \<lparr>world = (5, 0),
       trace = [Fetch ''https://example.com'', TlsConnect 443 ''example.com'',
                SslChecker ''example.com'']\<rparr>)"
    by (simp add: model_eval)
  have capture: "takeScreenshot env_walled (w_url secure_site) (w_id secure_site) 0
       \<lparr>world = (5, 0),
        trace = [Fetch ''https://example.com'', TlsConnect 443 ''example.com'',
                 SslChecker ''example.com'']\<rparr> =
     (Some ''/screenshots/1_1700000006000.png'',
      \<lparr>world = (8, 1),
       trace = [Fetch ''https://example.com'', TlsConnect 443 ''example.com'',
                SslChecker ''example.com'', BrowserLaunch,
                PageScreenshot ''/app/public/screenshots/1_1700000006000.png'',
                BrowserClose]\<rparr>)"
    by (simp add: model_eval)
  have secure: "startsWith (w_url secure_site) ''https://''"
    by (simp add: model_eval)
  from C1_capture_overrides_probe [OF probe capture] secure
  have "status (fst (processWebsite env_walled secure_site start)) = Up \<and>
   ssl_valid (fst (processWebsite env_walled secure_site start)) \<and>
   error_message (fst (processWebsite env_walled secure_site start)) = None \<and>
   screenshot_path (fst (processWebsite env_walled secure_site start)) =
     Some ''/screenshots/1_1700000006000.png''"
    by auto
  with probe capture secure show ?thesis by simp
qed

text \<open>
  Claim C2: for a non-empty array of websites the route answers with the list of results,
  one per website and in the order of the input: the results' ids and URLs are, position
  by position, those of the input, whatever the probes and captures did.
\<close>

theorem C2_one_result_per_site_in_order:
  assumes "websites \<noteq> []"
  shows "\<exists>results s'. POST env (Body (JsArray websites)) s = (ResultsResponse results, s') \<and>
           length results = length websites \<and>
           map (\<lambda>r. (r_id r, r_url r)) results = map (\<lambda>w. (w_id w, w_url w)) websites"
proof -
  obtain results s' where loop: "process_loop env websites [] s = (results, s')"
    by (cases "process_loop env websites [] s")
  from process_loop_results [OF loop]
  have keys: "map (\<lambda>r. (r_id r, r_url r)) results = map (\<lambda>w. (w_id w, w_url w)) websites"
    by auto
  then have "length results = length websites"
    by (rule map_eq_imp_length_eq)
  moreover have "POST env (Body (JsArray websites)) s = (ResultsResponse results, s')"
    using assms loop by (simp add: POST_def)
  ultimately show ?thesis using keys by blast
qed

text \<open>
  Nothing answers for either of two sites: the response still holds two results, for
  site 1 and then site 2, each with status \<open>Error\<close>, the probe's message and no
  screenshot.
\<close>

theorem C2_one_result_per_site_in_order_witness:
  "[secure_site, plain_site] \<noteq> [] \<and>
   (\<exists>results s'.
      POST env_unreachable (Body (JsArray [secure_site, plain_site])) start =
        (ResultsResponse results, s') \<and>
      length results = 2 \<and>
      map (\<lambda>r. (r_id r, r_url r)) results =
        [(1, ''https://example.com''), (2, ''http://example.org'')]) \<and>
   map (\<lambda>r. (status r, error_message r, screenshot_path r))
     (case fst (POST env_unreachable (Body (JsArray [secure_site, plain_site])) start) of
        ResultsResponse results \<Rightarrow> results | ErrorResponse msg code \<Rightarrow> []) =
     [(Error, Some ''fetch failed'', None), (Error, Some ''fetch failed'', None)]"
proof -
  have h: "[secure_site, plain_site] \<noteq> []" by simp
  from C2_one_result_per_site_in_order [OF h, of env_unreachable start]
  obtain results s' where
    run: "POST env_unreachable (Body (JsArray [secure_site, plain_site])) start =
        (ResultsResponse results, s')"
    and len: "length results = length [secure_site, plain_site]"
    and keys: "map (\<lambda>r. (r_id r, r_url r)) results =
        map (\<lambda>w. (w_id w, w_url w)) [secure_site, plain_site]"
    by blast
  from len have "length results = 2" by simp
  moreover from keys have "map (\<lambda>r. (r_id r, r_url r)) results =
        [(1, ''https://example.com''), (2, ''http://example.org'')]"
    by (simp add: secure_site_def plain_site_def)
  ultimately have "\<exists>results s'.
      POST env_unreachable (Body (JsArray [secure_site, plain_site])) start =
        (ResultsResponse results, s') \<and>
      length results = 2 \<and>
      map (\<lambda>r. (r_id r, r_url r)) results =
        [(1, ''https://example.com''), (2, ''http://example.org'')]"
    using run by (intro exI [of _ results] exI [of _ s']) simp
  moreover have "map (\<lambda>r. (status r, error_message r, screenshot_path r))
     (case fst (POST env_unreachable (Body (JsArray [secure_site, plain_site])) start) of
        ResultsResponse results \<Rightarrow> results | ErrorResponse msg code \<Rightarrow> []) =
     [(Error, Some ''fetch failed'', None), (Error, Some ''fetch failed'', None)]"
    by (simp add: model_eval)
  ultimately show ?thesis using h by blast
qed

text \<open>
  Claim C3: when the \<^verbatim>\<open>websites\<close> value read from the request body is falsy (missing,
  null), is not an array, or is an array of length zero, the route answers
  \<^verbatim>\<open>{error: "No websites provided"}\<close> with status 400, and the state is the one it
  started in: no probe, no capture, no external call. A success response never holds an
  empty result list.
\<close>

theorem C3_empty_or_malformed_rejected:
  assumes "\<not> js_truthy websites \<or> \<not> isArray websites \<or> length (array_items websites) = 0"
  shows "POST env (Body websites) s = (ErrorResponse ''No websites provided'' 400, s) \<and>
         (\<forall>request s0 s'. POST env request s0 \<noteq> (ResultsResponse [], s'))"
proof
  show "POST env (Body websites) s = (ErrorResponse ''No websites provided'' 400, s)"
    using assms by (simp add: POST_def)
  show "\<forall>request s0 s'. POST env request s0 \<noteq> (ResultsResponse [], s')"
  proof (intro allI notI)
    fix request s0 s'
    assume "POST env request s0 = (ResultsResponse [], s')"
    from POST_results [OF this] obtain sites where
      sites: "sites \<noteq> []" "process_loop env sites [] s0 = ([], s')" by blast
    from process_loop_results [OF sites(2)] have "sites = []" by simp
    with sites(1) show False by simp
  qed
qed

theorem C3_empty_or_malformed_rejected_witness:
  "length (array_items (JsArray [])) = 0 \<and>
   POST env_healthy (Body (JsArray [])) start = (ErrorResponse ''No websites provided'' 400, start) \<and>
   \<not> js_truthy JsUndefined \<and>
   POST env_healthy (Body JsUndefined) start = (ErrorResponse ''No websites provided'' 400, start) \<and>
   \<not> isArray (JsString ''https://example.com'') \<and>
   POST env_healthy (Body (JsString ''https://example.com'')) start =
     (ErrorResponse ''No websites provided'' 400, start)"
proof -
  have a: "\<not> js_truthy (JsArray []) \<or> \<not> isArray (JsArray []) \<or>
      length (array_items (JsArray [])) = 0"
    by simp
  have b: "\<not> js_truthy JsUndefined \<or> \<not> isArray JsUndefined \<or>
      length (array_items JsUndefined) = 0"
    by simp
  have c: "\<not> js_truthy (JsString ''https://example.com'') \<or>
      \<not> isArray (JsString ''https://example.com'') \<or>
      length (array_items (JsString ''https://example.com'')) = 0"
    by simp
  show ?thesis
    using C3_empty_or_malformed_rejected [OF a, of env_healthy start]
      C3_empty_or_malformed_rejected [OF b, of env_healthy start]
      C3_empty_or_malformed_rejected [OF c, of env_healthy start]
    by simp
qed





end
